theory Spec2Isabelle
  imports Main
begin

section \<open>JavaScript strings\<close>

text \<open>
  A JavaScript string is a sequence of UTF-16 code units, each an \<^typ>\<open>int\<close> (from 0 to
  65535); \<open>codes\<close> turns a literal into such a list.
\<close>

type_synonym ustring = "int list"

definition codes :: "string \<Rightarrow> ustring" where
  "codes s = map of_char s"

fun ustartsWith :: "ustring \<Rightarrow> ustring \<Rightarrow> bool" where
  "ustartsWith s [] = True"
| "ustartsWith [] (p # ps) = False"
| "ustartsWith (c # cs) (p # ps) = (c = p \<and> ustartsWith cs ps)"

text \<open>\<^verbatim>\<open>s.includes(sub)\<close>: \<open>sub\<close> occurs in \<open>s\<close> as a contiguous run.\<close>

fun js_includes :: "ustring \<Rightarrow> ustring \<Rightarrow> bool" where
  "js_includes [] sub = (sub = [])"
| "js_includes (c # cs) sub = (ustartsWith (c # cs) sub \<or> js_includes cs sub)"

text \<open>
  \<^verbatim>\<open>toLowerCase\<close>, unit by unit. The code units whose lower-case form contains an ASCII
  unit are A-Z, U+0130 (which becomes \<^verbatim>\<open>i\<close> followed by U+0307) and U+212A, the Kelvin
  sign (which becomes \<^verbatim>\<open>k\<close>); they are mapped as the engine maps them, and so are the
  Latin-1 capitals U+00C0..U+00DE (without the multiplication sign U+00D7). Any other
  unit that has a lower-case form (Greek, Cyrillic, a surrogate pair, ...) is, like that
  form, outside ASCII, and is kept as it is: the lower-cased message is only ever searched
  for ASCII words, and such a search cannot tell the unit from its lower-case form.
\<close>

definition toLowerUnit :: "int \<Rightarrow> ustring" where
  "toLowerUnit c =
     (if (65 \<le> c \<and> c \<le> 90) \<or> (192 \<le> c \<and> c \<le> 222 \<and> c \<noteq> 215) then [c + 32]
      else if c = 304 then [105, 775]
      else if c = 8490 then [107]
      else [c])"

definition toLowerCase :: "ustring \<Rightarrow> ustring" where
  "toLowerCase s = concat (map toLowerUnit s)"

text \<open>The class \<^verbatim>\<open>\d\<close>\<close>

definition isDigitU :: "int \<Rightarrow> bool" where
  "isDigitU c = (48 \<le> c \<and> c \<le> 57)"

section \<open>Error Classifier\<close>

datatype AIProvider = anthropic | openai | google

fun PROVIDER_LABELS :: "AIProvider \<Rightarrow> ustring" where
  "PROVIDER_LABELS anthropic = codes ''Anthropic''"
| "PROVIDER_LABELS openai = codes ''OpenAI''"
| "PROVIDER_LABELS google = codes ''Google''"

text \<open>
  The value caught by a handler (\<^verbatim>\<open>error: unknown\<close>), as far as the classifier
  inspects it: an \<^verbatim>\<open>Error\<close> with its message (and whether it is a
  \<^verbatim>\<open>TypeError\<close>); another non-null object with those of its properties
  \<^verbatim>\<open>message\<close>, \<^verbatim>\<open>error\<close>, \<^verbatim>\<open>reason\<close>, \<^verbatim>\<open>statusText\<close> that are strings,
  its \<^verbatim>\<open>status\<close> when that is a number (as a template literal prints it) and the
  result of \<^verbatim>\<open>String(error)\<close>; or any other value with the result of
  \<^verbatim>\<open>String(error)\<close>.
\<close>

record js_object =
  obj_message :: "ustring option"
  obj_error :: "ustring option"
  obj_reason :: "ustring option"
  obj_statusText :: "ustring option"
  obj_status :: "ustring option"
  obj_String :: ustring

datatype js_thrown =
    JsError bool ustring
  | JsObject js_object
  | JsOther ustring

text \<open>\<^verbatim>\<open>(typeof v === 'string' && v) || rest\<close>\<close>

definition strOr :: "ustring option \<Rightarrow> ustring \<Rightarrow> ustring" where
  "strOr v rest = (case v of Some s \<Rightarrow> (if s \<noteq> [] then s else rest) | None \<Rightarrow> rest)"

text \<open>\<^verbatim>\<open>message.match(/API error (\d+)/)\<close>: the digits captured at the leftmost
  occurrence of \<^verbatim>\<open>API error \<close> that a digit follows.\<close>

fun matchApiError :: "ustring \<Rightarrow> ustring option" where
  "matchApiError [] = None"
| "matchApiError (c # cs) =
     (if ustartsWith (c # cs) (codes ''API error '')
         \<and> (case drop 10 (c # cs) of [] \<Rightarrow> False | d # _ \<Rightarrow> isDigitU d)
      then Some (takeWhile isDigitU (drop 10 (c # cs)))
      else matchApiError cs)"

definition isTypeError :: "js_thrown \<Rightarrow> bool" where
  "isTypeError e = (case e of JsError t _ \<Rightarrow> t | _ \<Rightarrow> False)"

subsection \<open>First revision (main.ts, lines 455-492)\<close>

definition errorMessage_r1 :: "js_thrown \<Rightarrow> ustring" where
  "errorMessage_r1 e =
     (let m = (case e of JsError _ m \<Rightarrow> m | JsObject ob \<Rightarrow> obj_String ob | JsOther s \<Rightarrow> s)
      in if m \<noteq> [] then m else codes ''Unknown error'')"

definition getUserFriendlyError_r1 :: "js_thrown \<Rightarrow> ustring" where
  "getUserFriendlyError_r1 e =
     (let message = errorMessage_r1 e; lower = toLowerCase message in
      if js_includes message (codes ''401'') \<or> js_includes lower (codes ''invalid api key'')
         \<or> js_includes lower (codes ''incorrect api key'')
      then codes ''Invalid API key. Please check your key and try again.''
      else if js_includes message (codes ''402'') \<or> js_includes lower (codes ''credit'')
              \<or> js_includes lower (codes ''quota'')
      then codes ''Insufficient API credits. Please check your account billing.''
      else if js_includes message (codes ''429'') \<or> js_includes lower (codes ''rate limit'')
      then codes ''Rate limit reached. Please wait a moment and try again.''
      else if js_includes message (codes ''529'') \<or> js_includes message (codes ''503'')
              \<or> js_includes lower (codes ''overloaded'')
      then codes ''AI service is overloaded. Please try again in a few seconds.''
      else
        (case (if js_includes message (codes ''API error'')
               then (case matchApiError message of
                       None \<Rightarrow> None
                     | Some code \<Rightarrow>
                         if code = codes ''401''
                         then Some (codes ''Invalid API key. Please check your key and try again.'')
                         else if code = codes ''402''
                         then Some (codes ''Insufficient API credits. Please check your account billing.'')
                         else if code = codes ''429''
                         then Some (codes ''Rate limit reached. Please wait a moment and try again.'')
                         else if code = codes ''503'' \<or> code = codes ''529''
                         then Some (codes ''AI service is overloaded. Please try again in a few seconds.'')
                         else None)
               else None) of
           Some r \<Rightarrow> r
         | None \<Rightarrow>
             if js_includes lower (codes ''no frames selected'') \<or> js_includes lower (codes ''selection'')
             then codes ''Please select at least one frame to scan.''
             else if isTypeError e \<and> js_includes message (codes ''fetch'')
             then codes ''Network error. Please check your internet connection.''
             else if js_includes lower (codes ''network'')
             then codes ''Network error. Please check your internet connection.''
             else if js_includes message (codes ''JSON'') \<or> js_includes message (codes ''parse'')
             then codes ''Error parsing AI response. Please try again.''
             else if length message > 300 then codes ''Error: '' @ take 297 message @ codes ''...''
             else codes ''Error: '' @ message))"

subsection \<open>Second revision (main.ts, lines 1653-1737)\<close>

definition errorMessage :: "js_thrown \<Rightarrow> ustring" where
  "errorMessage e =
     (let m = (case e of
                 JsError _ m \<Rightarrow> (if m \<noteq> [] then m else codes ''Unknown error'')
               | JsObject ob \<Rightarrow>
                   strOr (obj_message ob) (strOr (obj_error ob) (strOr (obj_reason ob)
                     (strOr (obj_statusText ob)
                        (case obj_status ob of
                           Some n \<Rightarrow> codes ''Request failed with status '' @ n
                         | None \<Rightarrow> codes ''Something went wrong. Please try again.''))))
               | JsOther s \<Rightarrow> (if s \<noteq> [] then s else codes ''Unknown error''))
      in if m = codes ''[object Object]'' then codes ''Something went wrong. Please try again.'' else m)"

definition getUserFriendlyError :: "js_thrown \<Rightarrow> AIProvider option \<Rightarrow> ustring" where
  "getUserFriendlyError e provider =
     (let label = (case provider of Some p \<Rightarrow> PROVIDER_LABELS p | None \<Rightarrow> codes ''API'');
          message = errorMessage e;
          lower = toLowerCase message in
      if js_includes message (codes ''401'') \<or> js_includes lower (codes ''invalid api key'')
         \<or> js_includes lower (codes ''incorrect api key'')
      then label @ codes '': Invalid API key. Please check your key and try again.''
      else if js_includes message (codes ''429'') \<or> js_includes lower (codes ''rate limit'')
      then codes ''Rate limit reached. Please wait a moment and try again.''
      else if js_includes message (codes ''402'') \<or> js_includes lower (codes ''insufficient_quota'')
              \<or> js_includes lower (codes ''credit'') \<or> js_includes lower (codes ''quota'')
      then codes ''Insufficient API credits. Please add credits to your '' @ label @ codes '' account.''
      else if js_includes message (codes ''400'')
      then codes ''Request error. Please check your settings.''
      else if js_includes message (codes ''500'') \<or> js_includes message (codes ''502'')
              \<or> js_includes message (codes ''503'') \<or> js_includes message (codes ''529'')
              \<or> js_includes lower (codes ''overloaded'')
      then label @ codes '' is experiencing issues. Please try again in a few minutes.''
      else
        (case (if js_includes message (codes ''API error'')
               then (case matchApiError message of
                       None \<Rightarrow> None
                     | Some code \<Rightarrow>
                         if code = codes ''401''
                         then Some (label @ codes '': Invalid API key. Please check your key and try again.'')
                         else if code = codes ''402''
                         then Some (codes ''Insufficient API credits. Please add credits to your '' @ label
                                    @ codes '' account.'')
                         else if code = codes ''429''
                         then Some (codes ''Rate limit reached. Please wait a moment and try again.'')
                         else if code = codes ''400''
                         then Some (codes ''Request error. Please check your settings.'')
                         else if code = codes ''500'' \<or> code = codes ''502'' \<or> code = codes ''503''
                                 \<or> code = codes ''529''
                         then Some (label @ codes '' is experiencing issues. Please try again in a few minutes.'')
                         else None)
               else None) of
           Some r \<Rightarrow> r
         | None \<Rightarrow>
             if js_includes lower (codes ''timeout'') \<or> js_includes lower (codes ''timed out'')
             then codes ''Request timed out. Please check your connection and try again.''
             else if isTypeError e
                     \<and> (js_includes message (codes ''fetch'') \<or> js_includes message (codes ''Failed to fetch''))
             then codes ''Connection error. Please check your internet connection.''
             else if js_includes lower (codes ''cors'') \<or> js_includes lower (codes ''failed to fetch'')
                     \<or> js_includes lower (codes ''network'')
             then codes ''Connection error. Please check your internet connection.''
             else if js_includes lower (codes ''no frames selected'') \<or> js_includes lower (codes ''selection'')
             then codes ''Please select at least one frame to scan.''
             else if js_includes message (codes ''JSON'') \<or> js_includes lower (codes ''parse'')
             then codes ''Error parsing AI response. Please try again.''
             else if length message > 300 then codes ''Error: '' @ take 297 message @ codes ''...''
             else codes ''Error: '' @ message))"

text \<open>The error thrown by the provider calls for a non-2xx response:
  \<^verbatim>\<open>new Error(`API error ${response.status}: ${errorText}`)\<close>.\<close>

definition apiError :: "ustring \<Rightarrow> ustring \<Rightarrow> js_thrown" where
  "apiError status errorText =
     JsError False (codes ''API error '' @ status @ codes '': '' @ errorText)"


subsection \<open>The tests of the classifier, in the order in which it applies them\<close>

definition isInvalidKey :: "ustring \<Rightarrow> bool" where
  "isInvalidKey m = (js_includes m (codes ''401'') \<or> js_includes (toLowerCase m) (codes ''invalid api key'')
      \<or> js_includes (toLowerCase m) (codes ''incorrect api key''))"

definition isRateLimit :: "ustring \<Rightarrow> bool" where
  "isRateLimit m = (js_includes m (codes ''429'') \<or> js_includes (toLowerCase m) (codes ''rate limit''))"

definition isCredit :: "ustring \<Rightarrow> bool" where
  "isCredit m = (js_includes m (codes ''402'') \<or> js_includes (toLowerCase m) (codes ''insufficient_quota'')
      \<or> js_includes (toLowerCase m) (codes ''credit'') \<or> js_includes (toLowerCase m) (codes ''quota''))"

definition isCredit_r1 :: "ustring \<Rightarrow> bool" where
  "isCredit_r1 m = (js_includes m (codes ''402'') \<or> js_includes (toLowerCase m) (codes ''credit'')
      \<or> js_includes (toLowerCase m) (codes ''quota''))"

definition isBadRequest :: "ustring \<Rightarrow> bool" where
  "isBadRequest m = js_includes m (codes ''400'')"

definition isOverloaded :: "ustring \<Rightarrow> bool" where
  "isOverloaded m = (js_includes m (codes ''500'') \<or> js_includes m (codes ''502'')
      \<or> js_includes m (codes ''503'') \<or> js_includes m (codes ''529'')
      \<or> js_includes (toLowerCase m) (codes ''overloaded''))"

definition isOverloaded_r1 :: "ustring \<Rightarrow> bool" where
  "isOverloaded_r1 m = (js_includes m (codes ''529'') \<or> js_includes m (codes ''503'')
      \<or> js_includes (toLowerCase m) (codes ''overloaded''))"

text \<open>The tests after the block for the \<^verbatim>\<open>API error\<close> pattern: timeouts, connection
  failures, the selection precondition and parse failures.\<close>

definition isTimeout :: "ustring \<Rightarrow> bool" where
  "isTimeout m = (js_includes (toLowerCase m) (codes ''timeout'')
      \<or> js_includes (toLowerCase m) (codes ''timed out''))"

definition isConnection :: "js_thrown \<Rightarrow> ustring \<Rightarrow> bool" where
  "isConnection e m =
     ((isTypeError e \<and> (js_includes m (codes ''fetch'') \<or> js_includes m (codes ''Failed to fetch'')))
      \<or> js_includes (toLowerCase m) (codes ''cors'') \<or> js_includes (toLowerCase m) (codes ''failed to fetch'')
      \<or> js_includes (toLowerCase m) (codes ''network''))"

definition isConnection_r1 :: "js_thrown \<Rightarrow> ustring \<Rightarrow> bool" where
  "isConnection_r1 e m =
     ((isTypeError e \<and> js_includes m (codes ''fetch''))
      \<or> js_includes (toLowerCase m) (codes ''network''))"

definition isSelection :: "ustring \<Rightarrow> bool" where
  "isSelection m = (js_includes (toLowerCase m) (codes ''no frames selected'')
      \<or> js_includes (toLowerCase m) (codes ''selection''))"

definition isParse :: "ustring \<Rightarrow> bool" where
  "isParse m = (js_includes m (codes ''JSON'') \<or> js_includes (toLowerCase m) (codes ''parse''))"

definition isParse_r1 :: "ustring \<Rightarrow> bool" where
  "isParse_r1 m = (js_includes m (codes ''JSON'') \<or> js_includes m (codes ''parse''))"

text \<open>
  An error is unrecognized when its message passes none of these tests. The block for the
  \<^verbatim>\<open>API error\<close> pattern is not among them: it returns only for a captured code that an
  earlier test has already found in the message, so a message that reaches it always
  leaves it without a result, whatever its status.
\<close>

definition unrecognized :: "js_thrown \<Rightarrow> bool" where
  "unrecognized e =
     (let m = errorMessage e
      in \<not> isInvalidKey m \<and> \<not> isRateLimit m \<and> \<not> isCredit m \<and> \<not> isBadRequest m
         \<and> \<not> isOverloaded m \<and> \<not> isTimeout m \<and> \<not> isConnection e m \<and> \<not> isSelection m
         \<and> \<not> isParse m)"

definition unrecognized_r1 :: "js_thrown \<Rightarrow> bool" where
  "unrecognized_r1 e =
     (let m = errorMessage_r1 e
      in \<not> isInvalidKey m \<and> \<not> isCredit_r1 m \<and> \<not> isRateLimit m \<and> \<not> isOverloaded_r1 m
         \<and> \<not> isSelection m \<and> \<not> isConnection_r1 e m \<and> \<not> isParse_r1 m)"

definition labelOf :: "AIProvider option \<Rightarrow> ustring" where
  "labelOf provider = (case provider of Some p \<Rightarrow> PROVIDER_LABELS p | None \<Rightarrow> codes ''API'')"


section \<open>Trimming, splitting and matching\<close>

text \<open>ECMAScript \<^verbatim>\<open>LineTerminator\<close>: LF, CR, U+2028, U+2029.\<close>

definition isLineTerminator :: "int \<Rightarrow> bool" where
  "isLineTerminator c = (c = 10 \<or> c = 13 \<or> c = 8232 \<or> c = 8233)"

text \<open>The class \<^verbatim>\<open>\s\<close>, which is also what \<^verbatim>\<open>trim()\<close> removes: \<^verbatim>\<open>WhiteSpace\<close>
  (TAB, VT, FF, SP, NBSP, U+FEFF and the space separators U+1680, U+2000..U+200A, U+202F,
  U+205F, U+3000) and \<^verbatim>\<open>LineTerminator\<close>.\<close>

definition isSpace :: "int \<Rightarrow> bool" where
  "isSpace c = (c = 9 \<or> c = 11 \<or> c = 12 \<or> c = 32 \<or> c = 160 \<or> c = 65279 \<or> c = 5760
     \<or> (8192 \<le> c \<and> c \<le> 8202) \<or> c = 8239 \<or> c = 8287 \<or> c = 12288 \<or> isLineTerminator c)"

definition dropWhileEnd :: "(int \<Rightarrow> bool) \<Rightarrow> ustring \<Rightarrow> ustring" where
  "dropWhileEnd P s = rev (dropWhile P (rev s))"

definition trim :: "ustring \<Rightarrow> ustring" where
  "trim s = dropWhileEnd isSpace (dropWhile isSpace s)"

text \<open>
  \<^verbatim>\<open>s.split(sep)\<close> for a non-empty separator: the pieces between the non-overlapping
  occurrences of \<open>sep\<close>, found from the left. \<open>skip\<close> counts the code units of an
  occurrence still to be passed over, \<open>cur\<close> is the piece being collected, reversed.
\<close>

fun splitGo :: "ustring \<Rightarrow> nat \<Rightarrow> ustring \<Rightarrow> ustring \<Rightarrow> ustring list" where
  "splitGo sep skip cur [] = [rev cur]"
| "splitGo sep skip cur (c # cs) =
     (if skip > 0 then splitGo sep (skip - 1) cur cs
      else if ustartsWith (c # cs) sep then rev cur # splitGo sep (length sep - 1) [] cs
      else splitGo sep 0 (c # cur) cs)"

definition split :: "ustring \<Rightarrow> ustring \<Rightarrow> ustring list" where
  "split s sep = splitGo sep 0 [] s"

text \<open>\<^verbatim>\<open>lines.join(sep)\<close>\<close>

fun join :: "ustring \<Rightarrow> ustring list \<Rightarrow> ustring" where
  "join sep [] = []"
| "join sep [x] = x"
| "join sep (x # y # ys) = x @ sep @ join sep (y # ys)"

text \<open>
  \<^verbatim>\<open>s.match(/\{[\s\S]*\}/)\<close>: the class \<^verbatim>\<open>[\s\S]\<close> is every code unit and the star is
  greedy, so the match runs from the first \<^verbatim>\<open>{\<close> to the last \<^verbatim>\<open>}\<close> after it; there is
  no match when no \<^verbatim>\<open>}\<close> follows the first \<^verbatim>\<open>{\<close>.
\<close>

definition matchBraces :: "ustring \<Rightarrow> ustring option" where
  "matchBraces s =
     (let t = dropWhile (\<lambda>c. c \<noteq> 123) s
      in if t \<noteq> [] \<and> 125 \<in> set (tl t) then Some (dropWhileEnd (\<lambda>c. c \<noteq> 125) t) else None)"

section \<open>\<^verbatim>\<open>JSON.parse\<close>\<close>

text \<open>
  A number keeps its exact decimal value: sign, digits and decimal exponent, so that
  \<open>JNumber neg m e\<close> denotes \<open>\<plusminus> m \<times> 10\<^sup>e\<close>. A string is a list of code units (an escape
  \<^verbatim>\<open>\uXXXX\<close> can denote any of them). An object keeps its members in source order;
  a later member with the same key wins.
\<close>

datatype json =
    JNull
  | JBool bool
  | JNumber bool int int
  | JString ustring
  | JArray "json list"
  | JObject "(ustring \<times> json) list"

definition jsonWs :: "int \<Rightarrow> bool" where
  "jsonWs c = (c = 9 \<or> c = 10 \<or> c = 13 \<or> c = 32)"

definition hexVal :: "int \<Rightarrow> int option" where
  "hexVal c = (if 48 \<le> c \<and> c \<le> 57 then Some (c - 48)
               else if 97 \<le> c \<and> c \<le> 102 then Some (c - 87)
               else if 65 \<le> c \<and> c \<le> 70 then Some (c - 55)
               else None)"

text \<open>The single-character escapes: \<^verbatim>\<open>\" \\ \/ \b \f \n \r \t\<close>.\<close>

definition escapeChar :: "int \<Rightarrow> int option" where
  "escapeChar c = (if c = 34 then Some 34 else if c = 92 then Some 92 else if c = 47 then Some 47
                   else if c = 98 then Some 8 else if c = 102 then Some 12 else if c = 110 then Some 10
                   else if c = 114 then Some 13 else if c = 116 then Some 9 else None)"

definition consTo :: "int \<Rightarrow> (ustring \<times> ustring) option \<Rightarrow> (ustring \<times> ustring) option" where
  "consTo c r = (case r of None \<Rightarrow> None | Some (s, rest) \<Rightarrow> Some (c # s, rest))"

text \<open>The characters of a string after its opening quote, up to the closing quote; the
  result is the decoded string and the text after the closing quote.\<close>

fun parseStringBody :: "ustring \<Rightarrow> (ustring \<times> ustring) option" where
  "parseStringBody [] = None"
| "parseStringBody [c] = (if c = 34 then Some ([], []) else None)"
| "parseStringBody (c # e # cs) =
     (if c = 34 then Some ([], e # cs)
      else if c = 92 then
        (if e = 117 then
           (case cs of
              h1 # h2 # h3 # h4 # r \<Rightarrow>
                (case (hexVal h1, hexVal h2, hexVal h3, hexVal h4) of
                   (Some a, Some b, Some c', Some d) \<Rightarrow>
                     consTo (((a * 16 + b) * 16 + c') * 16 + d) (parseStringBody r)
                 | _ \<Rightarrow> None)
            | _ \<Rightarrow> None)
         else (case escapeChar e of None \<Rightarrow> None | Some x \<Rightarrow> consTo x (parseStringBody cs)))
      else if c < 32 then None
      else consTo c (parseStringBody (e # cs)))"

definition digitsVal :: "ustring \<Rightarrow> int" where
  "digitsVal ds = foldl (\<lambda>acc d. acc * 10 + (d - 48)) 0 ds"

text \<open>
  \<^verbatim>\<open>-? (0 | [1-9][0-9]*) (. [0-9]+)? ([eE] [+-]? [0-9]+)?\<close>; the result is the number and
  the text after it.
\<close>

definition parseNumber :: "ustring \<Rightarrow> (json \<times> ustring) option" where
  "parseNumber s =
     (let neg = (s \<noteq> [] \<and> hd s = 45);
          s1 = (if neg then tl s else s);
          ip = takeWhile isDigitU s1;
          s2 = dropWhile isDigitU s1
      in if ip = [] \<or> (hd ip = 48 \<and> length ip > 1) then None
         else
           let hasFrac = (s2 \<noteq> [] \<and> hd s2 = 46);
               fp = (if hasFrac then takeWhile isDigitU (tl s2) else []);
               s3 = (if hasFrac then dropWhile isDigitU (tl s2) else s2)
           in if hasFrac \<and> fp = [] then None
              else
                let hasExp = (s3 \<noteq> [] \<and> (hd s3 = 101 \<or> hd s3 = 69));
                    s4 = (if hasExp then tl s3 else s3);
                    eneg = (hasExp \<and> s4 \<noteq> [] \<and> hd s4 = 45);
                    s5 = (if hasExp \<and> s4 \<noteq> [] \<and> (hd s4 = 45 \<or> hd s4 = 43) then tl s4 else s4);
                    ep = (if hasExp then takeWhile isDigitU s5 else []);
                    s6 = (if hasExp then dropWhile isDigitU s5 else s3)
                in if hasExp \<and> ep = [] then None
                   else Some (JNumber neg (digitsVal (ip @ fp))
                                ((if eneg then - digitsVal ep else digitsVal ep) - int (length fp)),
                              s6))"

text \<open>
  The recursive descent. The first argument bounds the number of nested and successive
  values; every call follows at least one consumed code unit, so \<open>Suc (length s)\<close> is
  enough for a text \<open>s\<close>. \<open>parseElements\<close> reads the elements of an array after its
  opening bracket, \<open>parseMembers\<close> the members of an object after its opening brace,
  both collecting what they have read in \<open>acc\<close>.
\<close>

fun parseValue :: "nat \<Rightarrow> ustring \<Rightarrow> (json \<times> ustring) option"
  and parseElements :: "nat \<Rightarrow> ustring \<Rightarrow> json list \<Rightarrow> (json \<times> ustring) option"
  and parseMembers :: "nat \<Rightarrow> ustring \<Rightarrow> (ustring \<times> json) list \<Rightarrow> (json \<times> ustring) option"
where
  "parseValue 0 s = None"
| "parseValue (Suc n) s =
     (case dropWhile jsonWs s of
        [] \<Rightarrow> None
      | c # cs \<Rightarrow>
          if c = 123 then
            (case dropWhile jsonWs cs of
               [] \<Rightarrow> None
             | d # ds \<Rightarrow> if d = 125 then Some (JObject [], ds) else parseMembers n (d # ds) [])
          else if c = 91 then
            (case dropWhile jsonWs cs of
               [] \<Rightarrow> None
             | d # ds \<Rightarrow> if d = 93 then Some (JArray [], ds) else parseElements n (d # ds) [])
          else if c = 34 then
            (case parseStringBody cs of None \<Rightarrow> None | Some (str, rest) \<Rightarrow> Some (JString str, rest))
          else if ustartsWith (c # cs) (codes ''true'') then Some (JBool True, drop 4 (c # cs))
          else if ustartsWith (c # cs) (codes ''false'') then Some (JBool False, drop 5 (c # cs))
          else if ustartsWith (c # cs) (codes ''null'') then Some (JNull, drop 4 (c # cs))
          else parseNumber (c # cs))"
| "parseElements 0 s acc = None"
| "parseElements (Suc n) s acc =
     (case parseValue n s of
        None \<Rightarrow> None
      | Some (v, rest) \<Rightarrow>
          (case dropWhile jsonWs rest of
             [] \<Rightarrow> None
           | c # cs \<Rightarrow>
               if c = 44 then parseElements n cs (acc @ [v])
               else if c = 93 then Some (JArray (acc @ [v]), cs)
               else None))"
| "parseMembers 0 s acc = None"
| "parseMembers (Suc n) s acc =
     (case dropWhile jsonWs s of
        [] \<Rightarrow> None
      | q # qs \<Rightarrow>
          if q \<noteq> 34 then None
          else
            (case parseStringBody qs of
               None \<Rightarrow> None
             | Some (key, rest) \<Rightarrow>
                 (case dropWhile jsonWs rest of
                    [] \<Rightarrow> None
                  | c # cs \<Rightarrow>
                      if c \<noteq> 58 then None
                      else
                        (case parseValue n cs of
                           None \<Rightarrow> None
                         | Some (v, rest') \<Rightarrow>
                             (case dropWhile jsonWs rest' of
                                [] \<Rightarrow> None
                              | d # ds \<Rightarrow>
                                  if d = 44 then parseMembers n ds (acc @ [(key, v)])
                                  else if d = 125 then Some (JObject (acc @ [(key, v)]), ds)
                                  else None)))))"

text \<open>\<^verbatim>\<open>JSON.parse(text)\<close>: \<open>None\<close> stands for the \<^verbatim>\<open>SyntaxError\<close> it throws.\<close>

definition JSON_parse :: "ustring \<Rightarrow> json option" where
  "JSON_parse s =
     (case parseValue (Suc (length s)) s of
        None \<Rightarrow> None
      | Some (v, rest) \<Rightarrow> if dropWhile jsonWs rest = [] then Some v else None)"


section \<open>JavaScript values obtained from \<^verbatim>\<open>JSON.parse\<close>\<close>

text \<open>
  What a function throws: a value that the classifier can inspect, or an error raised by
  the engine itself, whose message is the engine's own: a \<^verbatim>\<open>TypeError\<close> (reading a
  property of \<^verbatim>\<open>null\<close> or \<^verbatim>\<open>undefined\<close>, calling what is not a function, iterating
  what is not iterable, converting an object that has no callable \<^verbatim>\<open>toString\<close>) or the
  \<^verbatim>\<open>SyntaxError\<close> of \<^verbatim>\<open>JSON.parse\<close>.
\<close>

datatype thrown = Thrown js_thrown | EngineTypeError | EngineSyntaxError

text \<open>Sequencing: an exception of the first step is the exception of the whole.\<close>

definition andThen :: "thrown + 'a \<Rightarrow> ('a \<Rightarrow> thrown + 'b) \<Rightarrow> thrown + 'b" where
  "andThen r f = (case r of Inl err \<Rightarrow> Inl err | Inr x \<Rightarrow> f x)"

text \<open>
  \<^verbatim>\<open>v.k\<close> for a parsed value \<open>v\<close>; \<open>None\<close> is \<^verbatim>\<open>undefined\<close>. This is used for the
  property names \<^verbatim>\<open>name\<close>, \<^verbatim>\<open>width\<close>, \<^verbatim>\<open>height\<close>, \<^verbatim>\<open>missing_screens\<close>, \<^verbatim>\<open>severity\<close>,
  \<^verbatim>\<open>reason\<close>, \<^verbatim>\<open>components_needed\<close> and \<^verbatim>\<open>reference_screen\<close>, which no built-in prototype
  defines, so that only an object can have them.
\<close>

definition getProp :: "json \<Rightarrow> ustring \<Rightarrow> thrown + json option" where
  "getProp v k =
     (case v of
        JNull \<Rightarrow> Inl EngineTypeError
      | JObject kvs \<Rightarrow> Inr (map_of (rev kvs) k)
      | _ \<Rightarrow> Inr None)"

text \<open>A decimal \<open>m \<times> 10\<^sup>e\<close> is read as the nearest double, which is zero exactly when
  the decimal is at most \<open>2\<^sup>-\<^sup>1\<^sup>0\<^sup>7\<^sup>5\<close>, half the least positive double.\<close>

definition numberIsZero :: "int \<Rightarrow> int \<Rightarrow> bool" where
  "numberIsZero m e = (m = 0 \<or> (e < 0 \<and> m * 2 ^ 1075 \<le> 10 ^ nat (- e)))"

text \<open>\<^verbatim>\<open>ToBoolean\<close>\<close>

fun truthy :: "json option \<Rightarrow> bool" where
  "truthy None = False"
| "truthy (Some JNull) = False"
| "truthy (Some (JBool b)) = b"
| "truthy (Some (JNumber neg m e)) = (\<not> numberIsZero m e)"
| "truthy (Some (JString str)) = (str \<noteq> [])"
| "truthy (Some (JArray xs)) = True"
| "truthy (Some (JObject kvs)) = True"

text \<open>\<^verbatim>\<open>typeof v === 'number'\<close>\<close>

fun isNumber :: "json option \<Rightarrow> bool" where
  "isNumber (Some (JNumber neg m e)) = True"
| "isNumber v = False"

section \<open>Response Parser: visual screen specification\<close>

text \<open>Two code units are equal under the \<^verbatim>\<open>i\<close> flag of a regular expression without
  the \<^verbatim>\<open>u\<close> flag, one of them being ASCII: they agree after a-z is mapped to A-Z (a code
  unit above 127 is never mapped into ASCII).\<close>

definition asciiUpper :: "int \<Rightarrow> int" where
  "asciiUpper c = (if 97 \<le> c \<and> c \<le> 122 then c - 32 else c)"

definition ustartsWithI :: "ustring \<Rightarrow> ustring \<Rightarrow> bool" where
  "ustartsWithI s p = ustartsWith (map asciiUpper s) (map asciiUpper p)"

text \<open>\<^verbatim>\<open>s.replace(/^```(?:json)?\s*/i, '')\<close>\<close>

definition stripFenceStart :: "ustring \<Rightarrow> ustring" where
  "stripFenceStart s =
     (if ustartsWith s (codes ''```'')
      then (let r = drop 3 s
            in dropWhile isSpace (if ustartsWithI r (codes ''json'') then drop 4 r else r))
      else s)"

text \<open>\<^verbatim>\<open>s.replace(/\s*```$/i, '')\<close>: the match starts at the leftmost position from which
  only white space and the final three backquotes follow.\<close>

definition stripFenceEnd :: "ustring \<Rightarrow> ustring" where
  "stripFenceEnd s =
     (if length s \<ge> 3 \<and> drop (length s - 3) s = codes ''```''
      then dropWhileEnd isSpace (take (length s - 3) s)
      else s)"

text \<open>The body of the \<^verbatim>\<open>try\<close> block: \<^verbatim>\<open>JSON.parse\<close> may throw, and so may the
  reading of a property; the conjunction stops at its first false operand.\<close>

definition tryParseSpec :: "ustring \<Rightarrow> thrown + json option" where
  "tryParseSpec m =
     (case JSON_parse m of
        None \<Rightarrow> Inl EngineSyntaxError
      | Some parsed \<Rightarrow>
          andThen (getProp parsed (codes ''name'')) (\<lambda>name.
            if \<not> truthy name then Inr None
            else andThen (getProp parsed (codes ''width'')) (\<lambda>w.
              if \<not> isNumber w then Inr None
              else andThen (getProp parsed (codes ''height'')) (\<lambda>h.
                if isNumber h then Inr (Some parsed) else Inr None))))"

text \<open>
  The values that pass the test of the \<^verbatim>\<open>try\<close> block,
  \<^verbatim>\<open>parsed.name && typeof parsed.width === 'number' && typeof parsed.height === 'number'\<close>:
  the objects whose name is truthy, whatever its type (a non-empty string, but also
  \<^verbatim>\<open>true\<close>, a number other than zero, an array or an object), and whose width and height
  are numbers.
\<close>

definition truthyNameNumericSize :: "json \<Rightarrow> bool" where
  "truthyNameNumericSize v =
     (case v of
        JObject kvs \<Rightarrow>
          truthy (map_of (rev kvs) (codes ''name''))
          \<and> isNumber (map_of (rev kvs) (codes ''width''))
          \<and> isNumber (map_of (rev kvs) (codes ''height''))
      | _ \<Rightarrow> False)"

text \<open>\<open>Inr None\<close> is the result \<^verbatim>\<open>null\<close>; the \<^verbatim>\<open>catch\<close> block ignores the exception
  and the function then returns \<^verbatim>\<open>null\<close>.\<close>

definition parseVisualScreenSpec :: "ustring \<Rightarrow> thrown + json option" where
  "parseVisualScreenSpec raw =
     (let cleaned = stripFenceEnd (stripFenceStart (trim raw))
      in case matchBraces cleaned of
           None \<Rightarrow> Inr None
         | Some m \<Rightarrow>
             (case tryParseSpec m of
                Inl err \<Rightarrow> Inr None
              | Inr r \<Rightarrow> Inr r))"

section \<open>Response Parser: flow analysis with missing screens\<close>

text \<open>
  A template literal is kept as its pieces: literal text, a small integer, and values whose
  conversion to a string (\<^verbatim>\<open>ToString\<close>, \<^verbatim>\<open>toUpperCase\<close>) is left to the engine. A
  document is a list of lines, joined by newlines in the source.
\<close>

datatype piece =
    Lit ustring
  | Num nat
  | Str "json option"
  | Upper ustring
  | Inherited ustring

type_synonym markdown = "piece list list"

text \<open>\<^verbatim>\<open>ToString\<close> throws for an object with an own property \<^verbatim>\<open>toString\<close> (which,
  coming from JSON, is not callable, and \<^verbatim>\<open>valueOf\<close> gives no primitive either) and for
  an array with such an element; an array joins the conversions of its elements.\<close>

fun toStringThrows :: "json \<Rightarrow> bool" where
  "toStringThrows (JObject kvs) = (codes ''toString'' \<in> fst ` set kvs)"
| "toStringThrows (JArray xs) = (\<exists>x \<in> set xs. toStringThrows x)"
| "toStringThrows v = False"

definition strPiece :: "json option \<Rightarrow> thrown + piece" where
  "strPiece v = (case v of
                   None \<Rightarrow> Inr (Str None)
                 | Some j \<Rightarrow> if toStringThrows j then Inl EngineTypeError else Inr (Str (Some j)))"

definition icon_high :: ustring where "icon_high = [55357, 56628]"
definition icon_medium :: ustring where "icon_medium = [55357, 57313]"
definition icon_low :: ustring where "icon_low = [55357, 57314]"
definition icon_fallback :: ustring where "icon_fallback = [9898]"

text \<open>The own properties of \<^verbatim>\<open>severityIcon\<close>.\<close>

definition severityIcon :: "ustring \<Rightarrow> ustring option" where
  "severityIcon k = (if k = codes ''high'' then Some icon_high
                     else if k = codes ''medium'' then Some icon_medium
                     else if k = codes ''low'' then Some icon_low
                     else None)"

text \<open>The property names that every object literal inherits from \<^verbatim>\<open>Object.prototype\<close>.\<close>

definition objectPrototypeKeys :: "ustring list" where
  "objectPrototypeKeys =
     map codes [''constructor'', ''hasOwnProperty'', ''isPrototypeOf'', ''propertyIsEnumerable'',
       ''toLocaleString'', ''toString'', ''valueOf'', ''__proto__'', ''__defineGetter__'',
       ''__defineSetter__'', ''__lookupGetter__'', ''__lookupSetter__'']"

text \<open>\<^verbatim>\<open>severityIcon[severity] ?? fallback\<close> for a string \<open>severity\<close>\<close>

definition iconPiece :: "ustring \<Rightarrow> piece" where
  "iconPiece sev =
     (case severityIcon sev of
        Some icon \<Rightarrow> Lit icon
      | None \<Rightarrow> if sev \<in> set objectPrototypeKeys then Inherited sev else Lit icon_fallback)"

text \<open>\<^verbatim>\<open>for (const c of s)\<close> over a string: its code points, a surrogate pair being one.\<close>

fun codePoints :: "ustring \<Rightarrow> ustring list" where
  "codePoints [] = []"
| "codePoints [c] = [[c]]"
| "codePoints (c # d # cs) =
     (if 55296 \<le> c \<and> c \<le> 56319 \<and> 56320 \<le> d \<and> d \<le> 57343
      then [c, d] # codePoints cs
      else [c] # codePoints (d # cs))"

text \<open>
  \<^verbatim>\<open>ToNumber(s) > 0\<close> for a string: white space is trimmed; the rest is a hexadecimal,
  octal or binary integer, or a signed decimal or \<^verbatim>\<open>Infinity\<close>; anything else is
  \<^verbatim>\<open>NaN\<close> and the empty string is zero.
\<close>

definition radixPositive :: "int \<Rightarrow> ustring \<Rightarrow> bool" where
  "radixPositive b ds =
     (ds \<noteq> [] \<and> (\<forall>d \<in> set ds. case hexVal d of None \<Rightarrow> False | Some v \<Rightarrow> v < b)
      \<and> (\<exists>d \<in> set ds. d \<noteq> 48))"

definition decimalPositive :: "ustring \<Rightarrow> bool" where
  "decimalPositive t =
     (let ip = takeWhile isDigitU t;
          t1 = dropWhile isDigitU t;
          hasDot = (t1 \<noteq> [] \<and> hd t1 = 46);
          fp = (if hasDot then takeWhile isDigitU (tl t1) else []);
          t2 = (if hasDot then dropWhile isDigitU (tl t1) else t1);
          hasExp = (t2 \<noteq> [] \<and> (hd t2 = 101 \<or> hd t2 = 69));
          t3 = (if hasExp then tl t2 else t2);
          eneg = (hasExp \<and> t3 \<noteq> [] \<and> hd t3 = 45);
          t4 = (if hasExp \<and> t3 \<noteq> [] \<and> (hd t3 = 45 \<or> hd t3 = 43) then tl t3 else t3);
          ep = (if hasExp then takeWhile isDigitU t4 else []);
          t5 = (if hasExp then dropWhile isDigitU t4 else t2)
      in (ip \<noteq> [] \<or> fp \<noteq> []) \<and> (hasExp \<longrightarrow> ep \<noteq> []) \<and> t5 = []
         \<and> \<not> numberIsZero (digitsVal (ip @ fp))
               ((if eneg then - digitsVal ep else digitsVal ep) - int (length fp)))"

definition stringPositive :: "ustring \<Rightarrow> bool" where
  "stringPositive s =
     (let t = trim s
      in if ustartsWithI t (codes ''0x'') then radixPositive 16 (drop 2 t)
         else if ustartsWithI t (codes ''0o'') then radixPositive 8 (drop 2 t)
         else if ustartsWithI t (codes ''0b'') then radixPositive 2 (drop 2 t)
         else if t \<noteq> [] \<and> hd t = 45 then False
         else
           (let u = (if t \<noteq> [] \<and> hd t = 43 then tl t else t)
            in u = codes ''Infinity'' \<or> decimalPositive u))"

text \<open>
  \<^verbatim>\<open>v > 0\<close> for a parsed value or \<^verbatim>\<open>undefined\<close>: \<open>Inl\<close> when the conversion throws.
  An array is converted through the string that joins its elements, so only an array of
  one element, itself a number, a numeric string or such an array, can be a positive number;
  an object becomes \<^verbatim>\<open>[object Object]\<close>.
\<close>

fun positive :: "json option \<Rightarrow> thrown + bool" where
  "positive None = Inr False"
| "positive (Some JNull) = Inr False"
| "positive (Some (JBool b)) = Inr b"
| "positive (Some (JNumber neg m e)) = Inr (\<not> neg \<and> \<not> numberIsZero m e)"
| "positive (Some (JString str)) = Inr (stringPositive str)"
| "positive (Some (JObject kvs)) =
     (if codes ''toString'' \<in> fst ` set kvs then Inl EngineTypeError else Inr False)"
| "positive (Some (JArray xs)) =
     (if toStringThrows (JArray xs) then Inl EngineTypeError
      else (case xs of
              [JNumber neg m e] \<Rightarrow> Inr (\<not> neg \<and> \<not> numberIsZero m e)
            | [JString str] \<Rightarrow> Inr (stringPositive str)
            | [JArray ys] \<Rightarrow> positive (Some (JArray ys))
            | _ \<Rightarrow> Inr False))"

text \<open>The lines for \<^verbatim>\<open>item.components_needed\<close>: the test \<^verbatim>\<open>.length > 0\<close> and the
  \<^verbatim>\<open>for...of\<close> loop.\<close>

fun collectPieces :: "json list \<Rightarrow> thrown + piece list list" where
  "collectPieces [] = Inr []"
| "collectPieces (c # cs) =
     (case strPiece (Some c) of
        Inl err \<Rightarrow> Inl err
      | Inr p \<Rightarrow>
          (case collectPieces cs of
             Inl err \<Rightarrow> Inl err
           | Inr ls \<Rightarrow> Inr ([Lit (codes ''- ''), p] # ls)))"

definition componentLines :: "json option \<Rightarrow> thrown + piece list list" where
  "componentLines cn =
     (case cn of
        None \<Rightarrow> Inl EngineTypeError
      | Some JNull \<Rightarrow> Inl EngineTypeError
      | Some (JArray xs) \<Rightarrow>
          if xs = [] then Inr []
          else (case collectPieces xs of
                  Inl err \<Rightarrow> Inl err
                | Inr ls \<Rightarrow> Inr ([Lit (codes ''**Components Needed:**'')] # ls))
      | Some (JString str) \<Rightarrow>
          if str = [] then Inr []
          else Inr ([Lit (codes ''**Components Needed:**'')]
                    # map (\<lambda>c. [Lit (codes ''- ''), Lit c]) (codePoints str))
      | Some (JObject kvs) \<Rightarrow>
          (case positive (map_of (rev kvs) (codes ''length'')) of
             Inl err \<Rightarrow> Inl err
           | Inr b \<Rightarrow> if b then Inl EngineTypeError else Inr [])
      | Some v \<Rightarrow> Inr [])"

text \<open>The body of the loop of \<^verbatim>\<open>formatEdgeCaseMarkdown\<close> for the item of index \<open>i\<close>.
  \<^verbatim>\<open>item.severity.charAt(0)\<close> throws unless the severity is a string.\<close>

definition itemLines :: "nat \<Rightarrow> json \<Rightarrow> thrown + piece list list" where
  "itemLines i item =
     (case getProp item (codes ''severity'') of
        Inl err \<Rightarrow> Inl err
      | Inr (Some (JString sev)) \<Rightarrow>
          (case (andThen (getProp item (codes ''name'')) strPiece,
                 andThen (getProp item (codes ''reason'')) strPiece,
                 andThen (getProp item (codes ''components_needed'')) componentLines,
                 andThen (getProp item (codes ''reference_screen'')) strPiece) of
             (Inr name, Inr reason, Inr comps, Inr ref) \<Rightarrow>
               Inr ([[],
                     [Lit (codes ''### ''), Num (i + 1), Lit (codes ''. ''), name],
                     [Lit (codes ''**Severity:** ''), iconPiece sev, Lit (codes '' ''),
                      Upper (take 1 sev), Lit (drop 1 sev)],
                     [Lit (codes ''**Reason:** ''), reason]]
                    @ comps
                    @ [[Lit (codes ''**Reference Screen:** ''), ref], [], [Lit (codes ''---'')]])
           | _ \<Rightarrow> Inl EngineTypeError)
      | Inr v \<Rightarrow> Inl EngineTypeError)"

fun allItemLines :: "nat \<Rightarrow> json list \<Rightarrow> thrown + piece list list" where
  "allItemLines i [] = Inr []"
| "allItemLines i (item # items) =
     (case itemLines i item of
        Inl err \<Rightarrow> Inl err
      | Inr ls \<Rightarrow> (case allItemLines (i + 1) items of Inl err \<Rightarrow> Inl err | Inr rest \<Rightarrow> Inr (ls @ rest)))"

text \<open>\<^verbatim>\<open>missingScreens.filter((s) => s.severity === level).length\<close>, after a loop that
  has returned, so that no item is \<^verbatim>\<open>null\<close>.\<close>

definition countSeverity :: "ustring \<Rightarrow> json list \<Rightarrow> nat" where
  "countSeverity level items =
     length (filter (\<lambda>item. getProp item (codes ''severity'') = Inr (Some (JString level))) items)"

definition plural :: "nat \<Rightarrow> ustring" where
  "plural n = (if n \<noteq> 1 then codes ''s'' else [])"

definition formatEdgeCaseMarkdown :: "json list \<Rightarrow> thrown + markdown" where
  "formatEdgeCaseMarkdown missingScreens =
     (case allItemLines 0 missingScreens of
        Inl err \<Rightarrow> Inl err
      | Inr ls \<Rightarrow>
          (let high = countSeverity (codes ''high'') missingScreens;
               medium = countSeverity (codes ''medium'') missingScreens;
               low = countSeverity (codes ''low'') missingScreens
           in Inr ([[Lit (codes ''# Edge Cases Analysis'')], [],
                    [Lit (codes ''## Missing Screens Detected: ''), Num (length missingScreens)], [],
                    [Lit (codes ''---'')]]
                   @ ls
                   @ [[], [Lit (codes ''## Summary'')],
                      [Lit (codes ''- ''), Lit icon_high, Lit (codes '' High severity: ''), Num high,
                       Lit (codes '' screen''), Lit (plural high)],
                      [Lit (codes ''- ''), Lit icon_medium, Lit (codes '' Medium severity: ''), Num medium,
                       Lit (codes '' screen''), Lit (plural medium)],
                      [Lit (codes ''- ''), Lit icon_low, Lit (codes '' Low severity: ''), Num low,
                       Lit (codes '' screen''), Lit (plural low)],
                      [],
                      [Lit (codes ''Total missing screens: ''), Num (length missingScreens)]])))"

record flowResult =
  flowText :: ustring
  missingScreens :: "json list"
  edgeDocumentation :: markdown

text \<open>The body of the \<^verbatim>\<open>try\<close> block: the parsed value's \<^verbatim>\<open>missing_screens\<close> when
  that is an array.\<close>

definition tryParseMissing :: "ustring \<Rightarrow> thrown + json list" where
  "tryParseMissing m =
     (case JSON_parse m of
        None \<Rightarrow> Inl EngineSyntaxError
      | Some parsed \<Rightarrow>
          andThen (getProp parsed (codes ''missing_screens'')) (\<lambda>ms.
            case ms of Some (JArray xs) \<Rightarrow> Inr xs | _ \<Rightarrow> Inr []))"

text \<open>The missing screens read from the text after the delimiter; \<open>missingScreens\<close>
  keeps its initial value, the empty list, when there is no text, no match or an
  exception, which the \<^verbatim>\<open>catch\<close> block ignores.\<close>

definition extractMissingScreens :: "ustring \<Rightarrow> json list" where
  "extractMissingScreens edgePart =
     (if edgePart \<noteq> [] then
        (case matchBraces edgePart of
           None \<Rightarrow> []
         | Some m \<Rightarrow> (case tryParseMissing m of Inl err \<Rightarrow> [] | Inr xs \<Rightarrow> xs))
      else [])"

text \<open>\<^verbatim>\<open>runScanFlowWithEdgeCases\<close> from the text of the vendor's response on (the two
  revisions agree): \<open>Inl\<close> when the function throws.\<close>

definition runScanFlowWithEdgeCases :: "ustring \<Rightarrow> thrown + flowResult" where
  "runScanFlowWithEdgeCases text =
     (let edgeSplit = split text (codes ''---EDGE-CASES---'');
          flowText = trim (hd edgeSplit);
          edgePart = trim (case edgeSplit of x # y # ys \<Rightarrow> y | _ \<Rightarrow> []);
          missingScreens = extractMissingScreens edgePart
      in if length missingScreens > 0
         then (case formatEdgeCaseMarkdown missingScreens of
                 Inl err \<Rightarrow> Inl err
               | Inr doc \<Rightarrow> Inr \<lparr>flowText = flowText, missingScreens = missingScreens,
                                edgeDocumentation = doc\<rparr>)
         else Inr \<lparr>flowText = flowText, missingScreens = missingScreens,
                   edgeDocumentation = [[Lit flowText]]\<rparr>)"


text \<open>\<open>sep\<close> occurs in \<open>s\<close> at position \<open>i\<close>.\<close>

definition occursAt :: "ustring \<Rightarrow> ustring \<Rightarrow> nat \<Rightarrow> bool" where
  "occursAt sep s i = (i \<le> length s \<and> ustartsWith (drop i s) sep)"


section \<open>Response Parser: documentation sections (canvas.ts)\<close>

subsection \<open>The header patterns\<close>

text \<open>
  The header patterns are built from \<^verbatim>\<open>#+\<close>, \<^verbatim>\<open>\s*\<close>, literal text compared under the
  \<^verbatim>\<open>i\<close> flag, optional groups and alternatives, between \<^verbatim>\<open>^\<close> and \<^verbatim>\<open>$\<close>. \<open>matchSeq\<close>
  decides whether a sequence of such parts matches a whole text, trying every length that a
  repetition can take.
\<close>

datatype rx =
    Hashes
  | Ws
  | LitI string
  | Opt "rx list"
  | Alt "rx list" "rx list"

function matchSeq :: "rx list \<Rightarrow> ustring \<Rightarrow> bool" where
  "matchSeq [] s = (s = [])"
| "matchSeq (Hashes # rs) s =
     list_ex (\<lambda>k. matchSeq rs (drop k s)) [1 ..< Suc (length (takeWhile (\<lambda>c. c = 35) s))]"
| "matchSeq (Ws # rs) s =
     list_ex (\<lambda>k. matchSeq rs (drop k s)) [0 ..< Suc (length (takeWhile isSpace s))]"
| "matchSeq (LitI l # rs) s = (ustartsWithI s (codes l) \<and> matchSeq rs (drop (length l) s))"
| "matchSeq (Opt g # rs) s = (matchSeq (g @ rs) s \<or> matchSeq rs s)"
| "matchSeq (Alt g h # rs) s = (matchSeq (g @ rs) s \<or> matchSeq (h @ rs) s)"
  by pat_completeness auto
termination
  by (relation "measure (\<lambda>(rs, s). size_list size rs)") (auto simp: size_list_append)

text \<open>\<^verbatim>\<open>SECTION_HEADERS\<close>, in the order of the source.\<close>

definition SECTION_HEADERS :: "(string \<times> rx list) list" where
  "SECTION_HEADERS =
     [(''Purpose'', [Hashes, Ws, LitI ''Purpose'', Ws]),
      (''Use Cases'', [Hashes, Ws, LitI ''Use Cases'', Ws]),
      (''Edge Cases & Results'',
         [Hashes, Ws, LitI ''Edge Cases'', Ws, Opt [LitI ''&'', Ws, LitI ''Results''], Ws]),
      (''Platform Constraints'',
         [Hashes, Ws, LitI ''Platform'', Ws, LitI ''Constraints'', Ws,
          Opt [Alt [LitI ''(iOS)''] [LitI ''(Android)'']], Ws]),
      (''Data Logic & Edge Cases'',
         [Hashes, Ws, LitI ''Data'', Ws, LitI ''Logic'', Ws,
          Opt [LitI ''&'', Ws, LitI ''Edge'', Ws, LitI ''Cases''], Ws]),
      (''Link to Component Library'', [Hashes, Ws, LitI ''Link to Component Library'', Ws]),
      (''Animations & Interactions'',
         [Hashes, Ws, LitI ''Animations'', Ws, Opt [LitI ''&'', Ws, LitI ''Interactions''], Ws]),
      (''Attachments'', [Hashes, Ws, LitI ''Attachments'', Ws])]"

text \<open>\<^verbatim>\<open>SECTION_HEADERS.find((h) => h.pattern.test(trimmed))\<close>, reduced to the key found.\<close>

definition headerKey :: "ustring \<Rightarrow> string option" where
  "headerKey trimmed = map_option fst (find (\<lambda>h. matchSeq (snd h) trimmed) SECTION_HEADERS)"

subsection \<open>The replacements\<close>

text \<open>\<^verbatim>\<open>s.replace(/\r\n/g, '\n')\<close>\<close>

fun replaceCRLF :: "ustring \<Rightarrow> ustring" where
  "replaceCRLF [] = []"
| "replaceCRLF [c] = [c]"
| "replaceCRLF (c # d # cs) =
     (if c = 13 \<and> d = 10 then 10 # replaceCRLF cs else c # replaceCRLF (d # cs))"

text \<open>
  \<^verbatim>\<open>s.replace(/^#+\s*/gm, '')\<close>, read from left to right. The state says where the
  reader is: at the start of a line, where a match may begin; inside the \<^verbatim>\<open>#\<close> of a
  match; inside the white space of a match, knowing whether the last code unit was a line
  terminator (then the end of the match is again the start of a line); or inside a line.
\<close>

datatype scan = AtLineStart | InHashes | InSpace bool | InLine

fun stripLeadingHashes :: "scan \<Rightarrow> ustring \<Rightarrow> ustring" where
  "stripLeadingHashes st [] = []"
| "stripLeadingHashes AtLineStart (c # cs) =
     (if c = 35 then stripLeadingHashes InHashes cs
      else c # stripLeadingHashes (if isLineTerminator c then AtLineStart else InLine) cs)"
| "stripLeadingHashes InHashes (c # cs) =
     (if c = 35 then stripLeadingHashes InHashes cs
      else if isSpace c then stripLeadingHashes (InSpace (isLineTerminator c)) cs
      else c # stripLeadingHashes InLine cs)"
| "stripLeadingHashes (InSpace lt) (c # cs) =
     (if isSpace c then stripLeadingHashes (InSpace (isLineTerminator c)) cs
      else if c = 35 \<and> lt then stripLeadingHashes InHashes cs
      else c # stripLeadingHashes InLine cs)"
| "stripLeadingHashes InLine (c # cs) =
     c # stripLeadingHashes (if isLineTerminator c then AtLineStart else InLine) cs"

text \<open>
  The length of the match of \<^verbatim>\<open>/\s*#+\s*$/m\<close> at the head of a text, if there is one:
  all the white space, all the \<^verbatim>\<open>#\<close> after it (at least one), and then the longest run
  of white space after which the line ends, that is, after which the text ends or a line
  terminator comes.
\<close>

definition lastLineTerminator :: "ustring \<Rightarrow> nat option" where
  "lastLineTerminator ws =
     (case filter (\<lambda>j. isLineTerminator (ws ! j)) (rev [0 ..< length ws]) of
        [] \<Rightarrow> None
      | j # js \<Rightarrow> Some j)"

definition matchTrailing :: "ustring \<Rightarrow> nat option" where
  "matchTrailing s =
     (let ws1 = takeWhile isSpace s;
          r1 = dropWhile isSpace s;
          hs = takeWhile (\<lambda>c. c = 35) r1;
          r2 = dropWhile (\<lambda>c. c = 35) r1;
          ws2 = takeWhile isSpace r2;
          r3 = dropWhile isSpace r2
      in if hs = [] then None
         else if r3 = [] then Some (length ws1 + length hs + length ws2)
         else (case lastLineTerminator ws2 of
                 None \<Rightarrow> None
               | Some j \<Rightarrow> Some (length ws1 + length hs + j)))"

text \<open>\<^verbatim>\<open>s.replace(/\s*#+\s*$/gm, '')\<close>: the matches are looked for from the left, each
  search starting where the last match ended; \<open>skip\<close> counts the code units of a match
  still to be dropped.\<close>

fun stripTrailingHashes :: "nat \<Rightarrow> ustring \<Rightarrow> ustring" where
  "stripTrailingHashes skip [] = []"
| "stripTrailingHashes skip (c # cs) =
     (if skip > 0 then stripTrailingHashes (skip - 1) cs
      else (case matchTrailing (c # cs) of
              Some n \<Rightarrow> stripTrailingHashes (n - 1) cs
            | None \<Rightarrow> c # stripTrailingHashes 0 cs))"

text \<open>\<^verbatim>\<open>s.replace(/\n#+\s*/g, '\n')\<close>\<close>

definition matchNewlineHashes :: "ustring \<Rightarrow> nat option" where
  "matchNewlineHashes s =
     (case s of
        c # d # cs \<Rightarrow>
          if c = 10 \<and> d = 35
          then Some (1 + length (takeWhile (\<lambda>c. c = 35) (d # cs))
                       + length (takeWhile isSpace (dropWhile (\<lambda>c. c = 35) (d # cs))))
          else None
      | _ \<Rightarrow> None)"

fun stripNewlineHashes :: "nat \<Rightarrow> ustring \<Rightarrow> ustring" where
  "stripNewlineHashes skip [] = []"
| "stripNewlineHashes skip (c # cs) =
     (if skip > 0 then stripNewlineHashes (skip - 1) cs
      else (case matchNewlineHashes (c # cs) of
              Some n \<Rightarrow> 10 # stripNewlineHashes (n - 1) cs
            | None \<Rightarrow> c # stripNewlineHashes 0 cs))"

subsection \<open>\<^verbatim>\<open>parseDocSections\<close>\<close>

definition SECTION_KEYS :: "string list" where
  "SECTION_KEYS = [''Purpose'', ''Use Cases'', ''Edge Cases & Results'', ''Platform Constraints'',
     ''Data Logic & Edge Cases'', ''Link to Component Library'', ''Animations & Interactions'',
     ''Attachments'']"

definition linkPlaceholder :: ustring where
  "linkPlaceholder = codes ''_____________________ (add link here)''"

definition attachmentsPlaceholder :: ustring where
  "attachmentsPlaceholder =
     codes ''Design specs: _____________________ (add link)'' @ [10, 10]
     @ codes ''Assets: _____________________ (add link)'' @ [10, 10]
     @ codes ''Other: _____________________ (add link)''"

text \<open>The record with which \<^verbatim>\<open>parseDocSections\<close> starts.\<close>

definition initialSections :: "string \<rightharpoonup> ustring" where
  "initialSections =
     [''Purpose'' \<mapsto> [], ''Use Cases'' \<mapsto> [], ''Edge Cases & Results'' \<mapsto> [],
      ''Platform Constraints'' \<mapsto> [], ''Data Logic & Edge Cases'' \<mapsto> [],
      ''Link to Component Library'' \<mapsto> linkPlaceholder, ''Animations & Interactions'' \<mapsto> [],
      ''Attachments'' \<mapsto> attachmentsPlaceholder]"

text \<open>The content that \<^verbatim>\<open>flush\<close> computes from the collected lines.\<close>

definition flushContent :: "ustring list \<Rightarrow> ustring" where
  "flushContent currentLines =
     trim (stripTrailingHashes 0 (stripLeadingHashes AtLineStart (trim (join [10] currentLines))))"

definition flush :: "string option \<Rightarrow> ustring list \<Rightarrow> (string \<rightharpoonup> ustring) \<Rightarrow> (string \<rightharpoonup> ustring)" where
  "flush currentKey currentLines sections =
     (case currentKey of
        None \<Rightarrow> sections
      | Some k \<Rightarrow>
          if flushContent currentLines \<noteq> [] then sections(k \<mapsto> flushContent currentLines)
          else sections)"

text \<open>The state of the loop over the lines: the sections, \<open>currentKey\<close> and
  \<open>currentLines\<close>.\<close>

type_synonym parseState = "(string \<rightharpoonup> ustring) \<times> string option \<times> ustring list"

definition lineStep :: "parseState \<Rightarrow> ustring \<Rightarrow> parseState" where
  "lineStep st line =
     (case st of (sections, currentKey, currentLines) \<Rightarrow>
        (case headerKey (trim line) of
           Some k \<Rightarrow> (flush currentKey currentLines sections, Some k, [])
         | None \<Rightarrow>
             if currentKey \<noteq> None then (sections, currentKey, currentLines @ [line])
             else (sections, currentKey, currentLines)))"

text \<open>The last loop, applied to the value of every key.\<close>

definition finalStrip :: "ustring \<Rightarrow> ustring" where
  "finalStrip v = trim (stripNewlineHashes 0 (stripLeadingHashes AtLineStart v))"

definition docLines :: "ustring \<Rightarrow> ustring list" where
  "docLines fullDoc = split (replaceCRLF fullDoc) [10]"

text \<open>The loop over the lines, the last \<^verbatim>\<open>flush()\<close> and the last loop.\<close>

definition parseLines :: "ustring list \<Rightarrow> (string \<rightharpoonup> ustring)" where
  "parseLines lines =
     (case foldl lineStep (initialSections, None, []) lines of
        (sections, currentKey, currentLines) \<Rightarrow>
          (\<lambda>key. map_option finalStrip (flush currentKey currentLines sections key)))"

definition parseDocSections :: "ustring \<Rightarrow> (string \<rightharpoonup> ustring)" where
  "parseDocSections fullDoc = parseLines (docLines fullDoc)"

section \<open>Orchestrator\<close>

subsection \<open>The world of an action\<close>

text \<open>
  The facts of a selected screen, as \<^verbatim>\<open>extractFrameData\<close> describes it (its numeric
  width and height, which only go into the prompts, are left out). The host document and
  the design-system extraction are collaborators outside this model; a design system is
  known by the screens it was extracted from.
\<close>

record FrameData =
  frameId :: ustring
  frameName :: ustring
  layerStructure :: ustring
  componentNames :: "ustring list"

datatype DesignSystemData = DesignSystemOf "FrameData list" | EmptyDesignSystem

datatype DocSection = screens | flow | edge_cases

record scanOptions =
  includePlatformConstraints :: bool
  includeDataLogic :: bool

text \<open>The prompt of a provider call, by the data it is built from: one screen with its
  request index (and, in the second revision, the options), the screens of a flow, or one
  missing screen with its index and the kind of prompt.\<close>

datatype promptKind = WithImages | TextWithSummary | TextOnly

datatype request =
    ScreenRequest FrameData nat "scanOptions option"
  | FlowRequest "FrameData list"
  | VisualRequest json nat promptKind

text \<open>A provider call carries the provider, key, model and project context in force when
  it is made.\<close>

record call =
  callProvider :: AIProvider
  callKey :: ustring
  callModel :: ustring
  callContext :: ustring
  callRequest :: request

datatype progress =
    AnalyzingScreen nat nat
  | ProcessingFrames nat nat
  | CreatingCards
  | AnalyzingFlow
  | CreatingFlowDoc
  | CreatingMissingCards
  | ExtractingScreenshots
  | GeneratingScreen nat nat piece
  | CreatingEdgeDoc

text \<open>
  The notifications to the UI. \<open>MsgError\<close> is \<^verbatim>\<open>{type: 'error', message}\<close> with a fixed
  message; \<open>MsgErrorOf e p\<close> is the same notification sent by \<^verbatim>\<open>sendError(e)\<close>, whose
  message is \<^verbatim>\<open>getUserFriendlyError(e, p)\<close>; \<open>MsgSkipping name\<close> is the error
  notification \<^verbatim>\<open>Could not parse screen layout for "name". Skipping.\<close>
\<close>

datatype MainMessage =
    MsgError string
  | MsgErrorOf thrown AIProvider
  | MsgSkipping piece
  | MsgProgress progress
  | MsgScanComplete DocSection ustring nat
  | MsgEdgeCaseResult "json list" markdown
  | MsgScreensCreated nat

datatype collab_op =
    ExtractDesignSystem
  | CreateDocCards nat ustring ustring
  | CreateFlowDocCards
  | CreateMissingScreenCards
  | LoadFonts
  | BuildVisualScreen nat
  | CreateDocFrame

text \<open>What an action does to the outside: a notification, the \<open>n\<close>-th provider call of
  the action, the moment when all calls of a batch have resolved, a pause in milliseconds,
  an operation on the document.\<close>

datatype event =
    ToUI MainMessage
  | Fetch nat call
  | BatchResolved nat
  | Delay nat
  | Document collab_op

fun isErrorNotification :: "event \<Rightarrow> bool" where
  "isErrorNotification (ToUI (MsgError m)) = True"
| "isErrorNotification (ToUI (MsgErrorOf e p)) = True"
| "isErrorNotification (ToUI (MsgSkipping n)) = True"
| "isErrorNotification ev = False"

fun isFetch :: "event \<Rightarrow> bool" where
  "isFetch (Fetch n c) = True"
| "isFetch ev = False"

text \<open>The module state of \<^verbatim>\<open>main.ts\<close>.\<close>

record session =
  apiKey :: ustring
  projectContext :: ustring
  currentProvider :: AIProvider
  cachedDesignSystem :: "DesignSystemData option"
  cachedFrameData :: "FrameData list option"
  cachedNodes :: "FrameData list"
  cachedScreenshots :: "FrameData list"

text \<open>
  What the action finds outside: the selected frames and components; the outcome of the
  \<open>n\<close>-th provider call (the text of the response, or what the call throws); for each
  operation on the document, what it throws if it does; and whether a node can be exported
  as a screenshot.
\<close>

record env =
  selection :: "FrameData list"
  vendor :: "nat \<Rightarrow> thrown + ustring"
  collab :: "collab_op \<Rightarrow> thrown option"
  exported :: "FrameData \<Rightarrow> bool"

record world =
  sess :: session
  calls :: nat
  trace :: "event list"

text \<open>A step of an action changes the world and returns a value or throws.\<close>

type_synonym 'a act = "world \<Rightarrow> (thrown + 'a) \<times> world"

definition ret :: "'a \<Rightarrow> 'a act" where
  "ret x w = (Inr x, w)"

definition throw :: "thrown \<Rightarrow> 'a act" where
  "throw e w = (Inl e, w)"

definition bind :: "'a act \<Rightarrow> ('a \<Rightarrow> 'b act) \<Rightarrow> 'b act" where
  "bind m f w = (case m w of (Inl e, w') \<Rightarrow> (Inl e, w') | (Inr x, w') \<Rightarrow> f x w')"

definition seq :: "unit act \<Rightarrow> 'b act \<Rightarrow> 'b act" where
  "seq m k = bind m (\<lambda>u. k)"

definition emit :: "event \<Rightarrow> unit act" where
  "emit ev w = (Inr (), w\<lparr>trace := trace w @ [ev]\<rparr>)"

definition lift :: "thrown + 'a \<Rightarrow> 'a act" where
  "lift r w = (r, w)"

definition sendToUI :: "MainMessage \<Rightarrow> unit act" where
  "sendToUI msg = emit (ToUI msg)"

definition sendProgress :: "progress \<Rightarrow> unit act" where
  "sendProgress p = sendToUI (MsgProgress p)"

text \<open>An operation of the document collaborator.\<close>

definition document :: "env \<Rightarrow> collab_op \<Rightarrow> unit act" where
  "document en op = seq (emit (Document op)) (case collab en op of None \<Rightarrow> ret () | Some e \<Rightarrow> throw e)"

text \<open>The request of a provider call leaves at once; \<open>startCall\<close> returns the number under
  which the environment knows its outcome.\<close>

definition startCall :: "ustring \<Rightarrow> request \<Rightarrow> nat act" where
  "startCall model req w =
     (Inr (calls w),
      w\<lparr>calls := calls w + 1,
        trace := trace w @ [Fetch (calls w)
                   \<lparr>callProvider = currentProvider (sess w), callKey = apiKey (sess w),
                    callModel = model, callContext = projectContext (sess w), callRequest = req\<rparr>]\<rparr>)"

text \<open>\<^verbatim>\<open>await callAI(...)\<close> or \<^verbatim>\<open>await callAIWithImages(...)\<close>\<close>

definition callAI :: "env \<Rightarrow> ustring \<Rightarrow> request \<Rightarrow> ustring act" where
  "callAI en model req = bind (startCall model req) (\<lambda>n. lift (vendor en n))"

definition DEFAULT_MODELS :: "AIProvider \<Rightarrow> ustring" where
  "DEFAULT_MODELS p = (case p of anthropic \<Rightarrow> codes ''claude-sonnet-4-20250514''
                        | openai \<Rightarrow> codes ''gpt-4o'' | google \<Rightarrow> codes ''gemini-2.0-flash'')"

text \<open>\<^verbatim>\<open>msgModel || DEFAULT_MODELS[currentProvider]\<close>\<close>

definition modelFor :: "ustring option \<Rightarrow> world \<Rightarrow> ustring" where
  "modelFor msgModel w =
     (case msgModel of
        Some m \<Rightarrow> if m \<noteq> [] then m else DEFAULT_MODELS (currentProvider (sess w))
      | None \<Rightarrow> DEFAULT_MODELS (currentProvider (sess w)))"

text \<open>The arguments of a handler, as the UI message gives them.\<close>

record handlerArgs =
  msgApiKey :: ustring
  msgProvider :: AIProvider
  msgProjectContext :: "ustring option"
  msgModel :: "ustring option"

text \<open>\<^verbatim>\<open>(msgApiKey || apiKey).trim()\<close> and \<^verbatim>\<open>(msgProjectContext ?? projectContext).trim()\<close>\<close>

definition keyOf :: "handlerArgs \<Rightarrow> session \<Rightarrow> ustring" where
  "keyOf a s = trim (if msgApiKey a \<noteq> [] then msgApiKey a else apiKey s)"

definition ctxOf :: "handlerArgs \<Rightarrow> session \<Rightarrow> ustring" where
  "ctxOf a s = trim (case msgProjectContext a of Some c \<Rightarrow> c | None \<Rightarrow> projectContext s)"

text \<open>
  The frame shared by the handlers: the session fields are overwritten, the body runs in a
  \<^verbatim>\<open>try\<close> block, the \<^verbatim>\<open>catch\<close> block reports what it threw with \<^verbatim>\<open>sendError\<close> (under
  the provider then in force), and the \<^verbatim>\<open>finally\<close> block writes the previous values back.
\<close>

definition withSession :: "handlerArgs \<Rightarrow> unit act \<Rightarrow> world \<Rightarrow> world" where
  "withSession a body w =
     (let prevKey = apiKey (sess w);
          prevCtx = projectContext (sess w);
          prevProv = currentProvider (sess w);
          w1 = w\<lparr>sess := (sess w)\<lparr>apiKey := keyOf a (sess w), projectContext := ctxOf a (sess w),
                                  currentProvider := msgProvider a\<rparr>\<rparr>;
          w3 = (case body w1 of
                  (Inr u, w2) \<Rightarrow> w2
                | (Inl e, w2) \<Rightarrow> w2\<lparr>trace := trace w2 @ [ToUI (MsgErrorOf e (currentProvider (sess w2)))]\<rparr>)
      in w3\<lparr>sess := (sess w3)\<lparr>apiKey := prevKey, projectContext := prevCtx,
                               currentProvider := prevProv\<rparr>\<rparr>)"

text \<open>The two precondition checks of the documentation and flow-analysis handlers.\<close>

definition guarded :: "env \<Rightarrow> handlerArgs \<Rightarrow> unit act \<Rightarrow> world \<Rightarrow> world" where
  "guarded en a body w =
     (if selection en = [] then w\<lparr>trace := trace w @ [ToUI (MsgError ''Please select at least one frame.'')]\<rparr>
      else if keyOf a (sess w) = []
      then w\<lparr>trace := trace w @ [ToUI (MsgError ''Please set and validate your API key first.'')]\<rparr>
      else withSession a body w)"

text \<open>The start of every \<^verbatim>\<open>try\<close> block: the design system is extracted and the caches
  for a later regeneration are filled.\<close>

definition snapshot :: "env \<Rightarrow> DesignSystemData act" where
  "snapshot en =
     seq (document en ExtractDesignSystem)
       (\<lambda>w. (Inr (DesignSystemOf (selection en)),
              w\<lparr>sess := (sess w)\<lparr>cachedDesignSystem := Some (DesignSystemOf (selection en)),
                                   cachedFrameData := Some (selection en),
                                   cachedNodes := selection en\<rparr>\<rparr>))"

text \<open>The cards of every documented screen, in order: \<^verbatim>\<open>createDocCardsForScreen\<close> gets the
  name and the documentation of the screen of index \<open>i\<close>.\<close>

fun createCards :: "env \<Rightarrow> nat \<Rightarrow> (ustring \<times> ustring) list \<Rightarrow> unit act" where
  "createCards en i [] = ret ()"
| "createCards en i (d # ds) =
     seq (document en (CreateDocCards i (fst d) (snd d))) (createCards en (i + 1) ds)"

subsection \<open>Documentation action, second revision (main.ts, lines 2045-2146)\<close>

definition BATCH_SIZE :: nat where "BATCH_SIZE = 5"
definition BATCH_DELAY_MS :: nat where "BATCH_DELAY_MS = 2000"

text \<open>\<^verbatim>\<open>batch.map((frameData, j) => runScanOneScreen(frameData, ..., i + j, ...))\<close>: every
  request of the batch is issued, in order.\<close>

fun startBatch :: "ustring \<Rightarrow> scanOptions \<Rightarrow> nat \<Rightarrow> FrameData list \<Rightarrow> nat list act" where
  "startBatch model opts i [] = ret []"
| "startBatch model opts i (f # fs) =
     bind (startCall model (ScreenRequest f i (Some opts)))
       (\<lambda>n. bind (startBatch model opts (i + 1) fs) (\<lambda>ns. ret (n # ns)))"

text \<open>\<^verbatim>\<open>await Promise.all(...)\<close>: the texts of all calls in order, or a rejection when a
  call rejects (the one of the least index stands for the first to reject).\<close>

fun awaitAll :: "env \<Rightarrow> nat list \<Rightarrow> thrown + ustring list" where
  "awaitAll en [] = Inr []"
| "awaitAll en (n # ns) =
     (case vendor en n of
        Inl e \<Rightarrow> Inl e
      | Inr text \<Rightarrow> (case awaitAll en ns of Inl e \<Rightarrow> Inl e | Inr texts \<Rightarrow> Inr (text # texts)))"

function batchLoop ::
  "env \<Rightarrow> ustring \<Rightarrow> scanOptions \<Rightarrow> nat \<Rightarrow> nat \<Rightarrow> FrameData list \<Rightarrow> (ustring \<times> ustring) list
   \<Rightarrow> (ustring \<times> ustring) list act"
where
  "batchLoop en model opts count i frames docs =
     (if frames = [] then ret docs
      else
        bind (startBatch model opts i (take BATCH_SIZE frames)) (\<lambda>ns.
        bind (lift (awaitAll en ns)) (\<lambda>batchResults.
        seq (emit (BatchResolved (length batchResults)))
        (seq (sendProgress (ProcessingFrames (min (i + BATCH_SIZE) count) count))
        (seq (if i + BATCH_SIZE < count then emit (Delay BATCH_DELAY_MS) else ret ())
        (batchLoop en model opts count (i + BATCH_SIZE) (drop BATCH_SIZE frames)
           (docs @ zip (map frameName (take BATCH_SIZE frames)) batchResults)))))))"
  by pat_completeness auto
termination
  by (relation "measure (\<lambda>(en, model, opts, count, i, frames, docs). length frames)")
     (auto simp: BATCH_SIZE_def)

declare batchLoop.simps [simp del]

definition scanScreensBody :: "env \<Rightarrow> handlerArgs \<Rightarrow> scanOptions \<Rightarrow> unit act" where
  "scanScreensBody en a opts =
     bind (snapshot en) (\<lambda>designSystem.
     bind (\<lambda>w. (Inr (modelFor (msgModel a) w), w)) (\<lambda>model.
     bind (batchLoop en model opts (length (selection en)) 0 (selection en) []) (\<lambda>docs.
     seq (sendProgress CreatingCards)
     (seq (createCards en 0 docs)
     (sendToUI (MsgScanComplete screens [] (length (selection en))))))))"

definition handleScanScreens :: "env \<Rightarrow> handlerArgs \<Rightarrow> scanOptions \<Rightarrow> world \<Rightarrow> world" where
  "handleScanScreens en a opts = guarded en a (scanScreensBody en a opts)"

subsection \<open>Documentation action, first revision (main.ts, lines 796-869)\<close>

fun scanLoop_r1 ::
  "env \<Rightarrow> ustring \<Rightarrow> nat \<Rightarrow> nat \<Rightarrow> FrameData list \<Rightarrow> (ustring \<times> ustring) list
   \<Rightarrow> (ustring \<times> ustring) list act"
where
  "scanLoop_r1 en model count i [] docs = ret docs"
| "scanLoop_r1 en model count i (f # fs) docs =
     seq (sendProgress (AnalyzingScreen (i + 1) count))
       (bind (callAI en model (ScreenRequest f i None)) (\<lambda>doc.
          scanLoop_r1 en model count (i + 1) fs (docs @ [(frameName f, doc)])))"

definition scanScreensBody_r1 :: "env \<Rightarrow> handlerArgs \<Rightarrow> unit act" where
  "scanScreensBody_r1 en a =
     bind (snapshot en) (\<lambda>designSystem.
     bind (\<lambda>w. (Inr (modelFor (msgModel a) w), w)) (\<lambda>model.
     bind (scanLoop_r1 en model (length (selection en)) 0 (selection en) []) (\<lambda>docs.
     seq (sendProgress CreatingCards)
     (seq (createCards en 0 docs)
     (sendToUI (MsgScanComplete screens [] (length (selection en))))))))"

definition handleScanScreens_r1 :: "env \<Rightarrow> handlerArgs \<Rightarrow> world \<Rightarrow> world" where
  "handleScanScreens_r1 en a = guarded en a (scanScreensBody_r1 en a)"

subsection \<open>Flow-analysis action (main.ts, lines 871-927 and 2148-2212)\<close>

text \<open>The first revision sends the missing screens to the UI; the second creates their
  cards on the canvas.\<close>

definition scanFlowBody_r1 :: "env \<Rightarrow> handlerArgs \<Rightarrow> unit act" where
  "scanFlowBody_r1 en a =
     seq (sendProgress AnalyzingFlow)
     (bind (snapshot en) (\<lambda>designSystem.
     bind (\<lambda>w. (Inr (modelFor (msgModel a) w), w)) (\<lambda>model.
     bind (callAI en model (FlowRequest (selection en))) (\<lambda>text.
     bind (lift (runScanFlowWithEdgeCases text)) (\<lambda>r.
     seq (sendProgress CreatingFlowDoc)
     (seq (document en CreateFlowDocCards)
     (seq (sendToUI (MsgScanComplete flow (flowText r) (length (missingScreens r))))
     (if length (missingScreens r) > 0
      then sendToUI (MsgEdgeCaseResult (missingScreens r) (edgeDocumentation r))
      else ret ()))))))))"

definition handleScanFlow_r1 :: "env \<Rightarrow> handlerArgs \<Rightarrow> world \<Rightarrow> world" where
  "handleScanFlow_r1 en a = guarded en a (scanFlowBody_r1 en a)"

definition scanFlowBody :: "env \<Rightarrow> handlerArgs \<Rightarrow> unit act" where
  "scanFlowBody en a =
     seq (sendProgress AnalyzingFlow)
     (bind (snapshot en) (\<lambda>designSystem.
     bind (\<lambda>w. (Inr (modelFor (msgModel a) w), w)) (\<lambda>model.
     bind (callAI en model (FlowRequest (selection en))) (\<lambda>text.
     bind (lift (runScanFlowWithEdgeCases text)) (\<lambda>r.
     seq (sendProgress CreatingFlowDoc)
     (seq (document en CreateFlowDocCards)
     (seq (if length (missingScreens r) > 0
           then seq (sendProgress CreatingMissingCards) (document en CreateMissingScreenCards)
           else ret ())
     (sendToUI (MsgScanComplete flow (flowText r) (length (missingScreens r)))))))))))"

definition handleScanFlow :: "env \<Rightarrow> handlerArgs \<Rightarrow> world \<Rightarrow> world" where
  "handleScanFlow en a = guarded en a (scanFlowBody en a)"

subsection \<open>Regeneration action (first revision only; main.ts, lines 989-1253)\<close>

text \<open>\<^verbatim>\<open>item.components_needed.join(', ')\<close>: only an array has a \<^verbatim>\<open>join\<close>; it converts its
  elements to strings.\<close>

definition joinThrows :: "json option \<Rightarrow> bool" where
  "joinThrows cn = (case cn of Some (JArray xs) \<Rightarrow> toStringThrows (JArray xs) | _ \<Rightarrow> True)"

text \<open>Building the user prompt reads the item's reason, reference screen and components.\<close>

definition promptParts :: "json \<Rightarrow> thrown + unit" where
  "promptParts item =
     andThen (andThen (getProp item (codes ''reason'')) strPiece) (\<lambda>reason.
     andThen (andThen (getProp item (codes ''reference_screen'')) strPiece) (\<lambda>ref.
     andThen (getProp item (codes ''components_needed'')) (\<lambda>cn.
       if joinThrows cn then Inl EngineTypeError else Inr ())))"

definition buildPrompt :: "json \<Rightarrow> unit act" where
  "buildPrompt item = lift (promptParts item)"

text \<open>One provider call for an item: with the screenshots when there are any, and
  otherwise in text only (the first attempt then adds the design-system summary).\<close>

definition visualCall :: "env \<Rightarrow> ustring \<Rightarrow> bool \<Rightarrow> json \<Rightarrow> nat \<Rightarrow> bool \<Rightarrow> ustring act" where
  "visualCall en model images item i retry =
     callAI en model
       (VisualRequest item i (if images then WithImages else if retry then TextOnly else TextWithSummary))"

text \<open>\<open>generateLoop\<close> is the loop over the missing screens; its result is the number of
  frames created.\<close>

fun generateLoop :: "env \<Rightarrow> ustring \<Rightarrow> bool \<Rightarrow> nat \<Rightarrow> nat \<Rightarrow> json list \<Rightarrow> nat \<Rightarrow> nat act" where
  "generateLoop en model images count i [] created = ret created"
| "generateLoop en model images count i (item # items) created =
     bind (lift (andThen (getProp item (codes ''name'')) strPiece)) (\<lambda>name.
     seq (sendProgress (GeneratingScreen (i + 1) count name))
     (seq (buildPrompt item)
     (bind (visualCall en model images item i False) (\<lambda>text.
     bind (lift (parseVisualScreenSpec text)) (\<lambda>visualSpec.
       case visualSpec of
         None \<Rightarrow>
           bind (visualCall en model images item i True) (\<lambda>retryText.
           bind (lift (parseVisualScreenSpec retryText)) (\<lambda>retrySpec.
             case retrySpec of
               None \<Rightarrow>
                 seq (sendToUI (MsgSkipping name))
                   (generateLoop en model images count (i + 1) items created)
             | Some spec \<Rightarrow>
                 seq (document en (BuildVisualScreen i))
                   (generateLoop en model images count (i + 1) items (created + 1))))
       | Some spec \<Rightarrow>
           seq (document en (BuildVisualScreen i))
             (generateLoop en model images count (i + 1) items (created + 1)))))))"

text \<open>The screenshots: the cached ones, or else those of the cached nodes (of the current
  selection when there are none) that can be exported, which are then cached.\<close>

definition takeScreenshots :: "env \<Rightarrow> FrameData list act" where
  "takeScreenshots en w =
     (if cachedScreenshots (sess w) \<noteq> [] then (Inr (cachedScreenshots (sess w)), w)
      else
        (let nodesToCapture = (if cachedNodes (sess w) \<noteq> [] then cachedNodes (sess w) else selection en)
         in if nodesToCapture \<noteq> []
            then (Inr (filter (exported en) nodesToCapture),
                  w\<lparr>sess := (sess w)\<lparr>cachedScreenshots := filter (exported en) nodesToCapture\<rparr>\<rparr>)
            else (Inr [], w)))"

definition generateBody :: "env \<Rightarrow> handlerArgs \<Rightarrow> json list \<Rightarrow> unit act" where
  "generateBody en a items =
     bind (\<lambda>w. (Inr (modelFor (msgModel a) w), w)) (\<lambda>model.
     seq (sendProgress ExtractingScreenshots)
     (bind (takeScreenshots en) (\<lambda>screenshots.
     seq (document en LoadFonts)
     (bind (generateLoop en model (screenshots \<noteq> []) (length items) 0 items 0) (\<lambda>created.
     seq (sendProgress CreatingEdgeDoc)
     (bind (lift (formatEdgeCaseMarkdown items)) (\<lambda>formattedDoc.
     seq (document en CreateDocFrame)
     (sendToUI (MsgScreensCreated created)))))))))"

text \<open>The regeneration handler has its own guard: it returns silently without a key or
  without missing screens, and does not look at the selection.\<close>

definition handleGenerateMissingScreens :: "env \<Rightarrow> handlerArgs \<Rightarrow> json list \<Rightarrow> world \<Rightarrow> world" where
  "handleGenerateMissingScreens en a items w =
     (if keyOf a (sess w) = [] \<or> items = [] then w
      else withSession a (generateBody en a items) w)"


subsection \<open>Notions used in the statements about the actions\<close>

text \<open>The ambient session fields have the same values in two worlds.\<close>

definition sameSession :: "world \<Rightarrow> world \<Rightarrow> bool" where
  "sameSession w w' =
     (apiKey (sess w') = apiKey (sess w) \<and> projectContext (sess w') = projectContext (sess w)
      \<and> currentProvider (sess w') = currentProvider (sess w))"

text \<open>The provider call for the screen \<open>f\<close> with request index \<open>i\<close>, under the key,
  provider, model and context of the action started with the arguments \<open>a\<close> in \<open>w\<close>.\<close>

definition screenCall :: "handlerArgs \<Rightarrow> world \<Rightarrow> scanOptions option \<Rightarrow> FrameData \<Rightarrow> nat \<Rightarrow> call" where
  "screenCall a w opts f i =
     \<lparr>callProvider = msgProvider a, callKey = keyOf a (sess w),
      callModel = (case msgModel a of
                     Some m \<Rightarrow> if m \<noteq> [] then m else DEFAULT_MODELS (msgProvider a)
                   | None \<Rightarrow> DEFAULT_MODELS (msgProvider a)),
      callContext = ctxOf a (sess w), callRequest = ScreenRequest f i opts\<rparr>"

text \<open>The provider call for a missing screen under the session in force in \<open>w\<close>.\<close>

definition visualCallOf :: "world \<Rightarrow> ustring \<Rightarrow> json \<Rightarrow> nat \<Rightarrow> promptKind \<Rightarrow> call" where
  "visualCallOf w model item i kind =
     \<lparr>callProvider = currentProvider (sess w), callKey = apiKey (sess w), callModel = model,
      callContext = projectContext (sess w), callRequest = VisualRequest item i kind\<rparr>"

subsection \<open>Concrete values for the instances below\<close>

definition screenNamed :: "string \<Rightarrow> FrameData" where
  "screenNamed n = \<lparr>frameId = [], frameName = codes n, layerStructure = [], componentNames = []\<rparr>"

definition sevenScreens :: "FrameData list" where
  "sevenScreens = map screenNamed [''S1'', ''S2'', ''S3'', ''S4'', ''S5'', ''S6'', ''S7'']"

text \<open>An environment whose provider answers every call with the same text, and one whose
  provider rejects every call with a 500 response.\<close>

definition answering :: "FrameData list \<Rightarrow> string \<Rightarrow> env" where
  "answering sel text =
     \<lparr>selection = sel, vendor = (\<lambda>n. Inr (codes text)), collab = (\<lambda>op. None), exported = (\<lambda>f. False)\<rparr>"

definition failing :: "FrameData list \<Rightarrow> env" where
  "failing sel =
     \<lparr>selection = sel, vendor = (\<lambda>n. Inl (Thrown (apiError (codes ''500'') (codes ''internal'')))),
      collab = (\<lambda>op. None), exported = (\<lambda>f. False)\<rparr>"

definition freshWorld :: "string \<Rightarrow> world" where
  "freshWorld k =
     \<lparr>sess = \<lparr>apiKey = codes k, projectContext = [], currentProvider = anthropic,
              cachedDesignSystem = None, cachedFrameData = None, cachedNodes = [],
              cachedScreenshots = []\<rparr>,
      calls = 0, trace = []\<rparr>"

definition uiArgs :: "string \<Rightarrow> handlerArgs" where
  "uiArgs k = \<lparr>msgApiKey = codes k, msgProvider = openai, msgProjectContext = Some (codes ''shop''),
               msgModel = None\<rparr>"

definition noOptions :: scanOptions where
  "noOptions = \<lparr>includePlatformConstraints = False, includeDataLogic = False\<rparr>"

definition offlineItem :: json where
  "offlineItem = JObject [(codes ''name'', JString (codes ''Offline'')),
                          (codes ''components_needed'', JArray []),
                          (codes ''severity'', JString (codes ''high''))]"


section \<open>Properties of the error classifier\<close>

lemma ustartsWith_append: "ustartsWith (sep @ post) sep"
  by (induction sep) auto

lemma js_includes_infix: "js_includes (pre @ sub @ post) sub"
proof (induction pre)
  case Nil
  show ?case
  proof (cases "sub @ post")
    case Nil
    then show ?thesis by simp
  next
    case (Cons c cs)
    then show ?thesis using ustartsWith_append [of sub post] by simp
  qed
next
  case (Cons c pre)
  then show ?case by simp
qed

lemma matchApiError_infix:
  "matchApiError m = Some code \<Longrightarrow> \<exists>pre post. m = pre @ code @ post"
proof (induction m)
  case Nil
  then show ?case by simp
next
  case (Cons c cs)
  show ?case
  proof (cases "ustartsWith (c # cs) (codes ''API error '')
                \<and> (case drop 10 (c # cs) of [] \<Rightarrow> False | d # _ \<Rightarrow> isDigitU d)")
    case True
    then have code: "code = takeWhile isDigitU (drop 10 (c # cs))"
      using Cons.prems by simp
    have "c # cs = take 10 (c # cs) @ code @ dropWhile isDigitU (drop 10 (c # cs))"
      unfolding code by (simp only: takeWhile_dropWhile_id append_take_drop_id)
    then show ?thesis by blast
  next
    case False
    then have "matchApiError (c # cs) = matchApiError cs"
      by (simp only: matchApiError.simps if_False)
    then have "matchApiError cs = Some code"
      using Cons.prems by simp
    then obtain pre post where "cs = pre @ code @ post"
      using Cons.IH by blast
    then have "c # cs = (c # pre) @ code @ post" by simp
    then show ?thesis by blast
  qed
qed

lemma matchApiError_includes: "matchApiError m = Some code \<Longrightarrow> js_includes m code"
  using matchApiError_infix [of m code] js_includes_infix by auto

text \<open>The block for the \<^verbatim>\<open>API error\<close> pattern never returns.\<close>

lemma api_block_dead:
  assumes "\<not> isInvalidKey m" "\<not> isRateLimit m" "\<not> isCredit m" "\<not> isBadRequest m" "\<not> isOverloaded m"
  shows "matchApiError m = Some code \<Longrightarrow>
         code \<noteq> codes ''401'' \<and> code \<noteq> codes ''402'' \<and> code \<noteq> codes ''429'' \<and> code \<noteq> codes ''400''
         \<and> code \<noteq> codes ''500'' \<and> code \<noteq> codes ''502'' \<and> code \<noteq> codes ''503'' \<and> code \<noteq> codes ''529''"
  using assms matchApiError_includes [of m code]
  unfolding isInvalidKey_def isRateLimit_def isCredit_def isBadRequest_def isOverloaded_def
  by blast

lemma api_block_dead_r1:
  assumes "\<not> isInvalidKey m" "\<not> isCredit_r1 m" "\<not> isRateLimit m" "\<not> isOverloaded_r1 m"
  shows "matchApiError m = Some code \<Longrightarrow>
         code \<noteq> codes ''401'' \<and> code \<noteq> codes ''402'' \<and> code \<noteq> codes ''429''
         \<and> code \<noteq> codes ''503'' \<and> code \<noteq> codes ''529''"
  using assms matchApiError_includes [of m code]
  unfolding isInvalidKey_def isRateLimit_def isCredit_r1_def isOverloaded_r1_def
  by blast


lemma classify_invalid_key:
  "isInvalidKey (errorMessage e) \<Longrightarrow>
   getUserFriendlyError e p = labelOf p @ codes '': Invalid API key. Please check your key and try again.''"
  unfolding getUserFriendlyError_def Let_def isInvalidKey_def labelOf_def
  by auto

lemma classify_rate_limit:
  "\<not> isInvalidKey (errorMessage e) \<Longrightarrow> isRateLimit (errorMessage e) \<Longrightarrow>
   getUserFriendlyError e p = codes ''Rate limit reached. Please wait a moment and try again.''"
  unfolding getUserFriendlyError_def Let_def isInvalidKey_def isRateLimit_def
  by auto

lemma classify_credit:
  "\<not> isInvalidKey (errorMessage e) \<Longrightarrow> \<not> isRateLimit (errorMessage e) \<Longrightarrow>
   isCredit (errorMessage e) \<Longrightarrow>
   getUserFriendlyError e p
     = codes ''Insufficient API credits. Please add credits to your '' @ labelOf p @ codes '' account.''"
  unfolding getUserFriendlyError_def Let_def isInvalidKey_def isRateLimit_def isCredit_def labelOf_def
  by auto

lemma classify_bad_request:
  "\<not> isInvalidKey (errorMessage e) \<Longrightarrow> \<not> isRateLimit (errorMessage e) \<Longrightarrow>
   \<not> isCredit (errorMessage e) \<Longrightarrow> isBadRequest (errorMessage e) \<Longrightarrow>
   getUserFriendlyError e p = codes ''Request error. Please check your settings.''"
  unfolding getUserFriendlyError_def Let_def isInvalidKey_def isRateLimit_def isCredit_def
    isBadRequest_def
  by auto

lemma classify_overloaded:
  "\<not> isInvalidKey (errorMessage e) \<Longrightarrow> \<not> isRateLimit (errorMessage e) \<Longrightarrow>
   \<not> isCredit (errorMessage e) \<Longrightarrow> \<not> isBadRequest (errorMessage e) \<Longrightarrow>
   isOverloaded (errorMessage e) \<Longrightarrow>
   getUserFriendlyError e p = labelOf p @ codes '' is experiencing issues. Please try again in a few minutes.''"
  unfolding getUserFriendlyError_def Let_def isInvalidKey_def isRateLimit_def isCredit_def
    isBadRequest_def isOverloaded_def labelOf_def
  by auto


lemma classify_late:
  assumes late: "\<not> isInvalidKey (errorMessage e)" "\<not> isRateLimit (errorMessage e)"
    "\<not> isCredit (errorMessage e)" "\<not> isBadRequest (errorMessage e)" "\<not> isOverloaded (errorMessage e)"
  shows "getUserFriendlyError e p =
     (if isTimeout (errorMessage e)
      then codes ''Request timed out. Please check your connection and try again.''
      else if isConnection e (errorMessage e)
      then codes ''Connection error. Please check your internet connection.''
      else if isSelection (errorMessage e) then codes ''Please select at least one frame to scan.''
      else if isParse (errorMessage e) then codes ''Error parsing AI response. Please try again.''
      else if length (errorMessage e) > 300
      then codes ''Error: '' @ take 297 (errorMessage e) @ codes ''...''
      else codes ''Error: '' @ errorMessage e)"
proof -
  define m where "m = errorMessage e"
  have dead: "matchApiError m = Some code \<Longrightarrow>
       code \<noteq> codes ''401'' \<and> code \<noteq> codes ''402'' \<and> code \<noteq> codes ''429'' \<and> code \<noteq> codes ''400''
       \<and> code \<noteq> codes ''500'' \<and> code \<noteq> codes ''502'' \<and> code \<noteq> codes ''503'' \<and> code \<noteq> codes ''529''"
    for code using api_block_dead [OF late [folded m_def]] .
  have blk: "(case matchApiError m of
                       None \<Rightarrow> None
                     | Some code \<Rightarrow>
                         if code = codes ''401'' then Some a
                         else if code = codes ''402'' then Some b
                         else if code = codes ''429'' then Some c
                         else if code = codes ''400'' then Some d
                         else if code = codes ''500'' \<or> code = codes ''502'' \<or> code = codes ''503''
                                 \<or> code = codes ''529''
                         then Some f
                         else None) = None" for a b c d f :: ustring
    using dead by (auto split: option.splits)
  have early: "\<not> (js_includes m (codes ''401'') \<or> js_includes (toLowerCase m) (codes ''invalid api key'')
         \<or> js_includes (toLowerCase m) (codes ''incorrect api key''))"
    "\<not> (js_includes m (codes ''429'') \<or> js_includes (toLowerCase m) (codes ''rate limit''))"
    "\<not> (js_includes m (codes ''402'') \<or> js_includes (toLowerCase m) (codes ''insufficient_quota'')
              \<or> js_includes (toLowerCase m) (codes ''credit'') \<or> js_includes (toLowerCase m) (codes ''quota''))"
    "\<not> js_includes m (codes ''400'')"
    "\<not> (js_includes m (codes ''500'') \<or> js_includes m (codes ''502'')
              \<or> js_includes m (codes ''503'') \<or> js_includes m (codes ''529'')
              \<or> js_includes (toLowerCase m) (codes ''overloaded''))"
    using late [folded m_def]
    unfolding isInvalidKey_def isRateLimit_def isCredit_def isBadRequest_def isOverloaded_def
    by blast+
  have "getUserFriendlyError e p =
          (if js_includes (toLowerCase m) (codes ''timeout'') \<or> js_includes (toLowerCase m) (codes ''timed out'')
             then codes ''Request timed out. Please check your connection and try again.''
             else if isTypeError e
                     \<and> (js_includes m (codes ''fetch'') \<or> js_includes m (codes ''Failed to fetch''))
             then codes ''Connection error. Please check your internet connection.''
             else if js_includes (toLowerCase m) (codes ''cors'') \<or> js_includes (toLowerCase m) (codes ''failed to fetch'')
                     \<or> js_includes (toLowerCase m) (codes ''network'')
             then codes ''Connection error. Please check your internet connection.''
             else if js_includes (toLowerCase m) (codes ''no frames selected'') \<or> js_includes (toLowerCase m) (codes ''selection'')
             then codes ''Please select at least one frame to scan.''
             else if js_includes m (codes ''JSON'') \<or> js_includes (toLowerCase m) (codes ''parse'')
             then codes ''Error parsing AI response. Please try again.''
             else if length m > 300 then codes ''Error: '' @ take 297 m @ codes ''...''
             else codes ''Error: '' @ m)"
    unfolding getUserFriendlyError_def Let_def m_def [symmetric]
    by (simp only: early if_False blk if_cancel option.case)
  also have "\<dots> = (if isTimeout m
      then codes ''Request timed out. Please check your connection and try again.''
      else if isConnection e m
      then codes ''Connection error. Please check your internet connection.''
      else if isSelection m then codes ''Please select at least one frame to scan.''
      else if isParse m then codes ''Error parsing AI response. Please try again.''
      else if length m > 300
      then codes ''Error: '' @ take 297 m @ codes ''...''
      else codes ''Error: '' @ m)"
    unfolding isTimeout_def isConnection_def isSelection_def isParse_def
    by (cases "isTypeError e \<and> (js_includes m (codes ''fetch'') \<or> js_includes m (codes ''Failed to fetch''))")
       (simp_all only: if_True if_False simp_thms)
  finally show ?thesis unfolding m_def .
qed


lemma classify_unrecognized:
  "unrecognized e \<Longrightarrow>
   getUserFriendlyError e p =
     (if length (errorMessage e) > 300 then codes ''Error: '' @ take 297 (errorMessage e) @ codes ''...''
      else codes ''Error: '' @ errorMessage e)"
  using classify_late [of e p] unfolding unrecognized_def Let_def
  by simp

lemma classify_invalid_key_r1:
  "isInvalidKey (errorMessage_r1 e) \<Longrightarrow>
   getUserFriendlyError_r1 e = codes ''Invalid API key. Please check your key and try again.''"
  unfolding getUserFriendlyError_r1_def Let_def isInvalidKey_def
  by auto

lemma classify_credit_r1:
  "\<not> isInvalidKey (errorMessage_r1 e) \<Longrightarrow> isCredit_r1 (errorMessage_r1 e) \<Longrightarrow>
   getUserFriendlyError_r1 e = codes ''Insufficient API credits. Please check your account billing.''"
  unfolding getUserFriendlyError_r1_def Let_def isInvalidKey_def isCredit_r1_def
  by auto

lemma classify_rate_limit_r1:
  "\<not> isInvalidKey (errorMessage_r1 e) \<Longrightarrow> \<not> isCredit_r1 (errorMessage_r1 e) \<Longrightarrow>
   isRateLimit (errorMessage_r1 e) \<Longrightarrow>
   getUserFriendlyError_r1 e = codes ''Rate limit reached. Please wait a moment and try again.''"
  unfolding getUserFriendlyError_r1_def Let_def isInvalidKey_def isRateLimit_def isCredit_r1_def
  by auto

lemma classify_overloaded_r1:
  "\<not> isInvalidKey (errorMessage_r1 e) \<Longrightarrow> \<not> isCredit_r1 (errorMessage_r1 e) \<Longrightarrow>
   \<not> isRateLimit (errorMessage_r1 e) \<Longrightarrow> isOverloaded_r1 (errorMessage_r1 e) \<Longrightarrow>
   getUserFriendlyError_r1 e = codes ''AI service is overloaded. Please try again in a few seconds.''"
  unfolding getUserFriendlyError_r1_def Let_def isInvalidKey_def isRateLimit_def isCredit_r1_def
    isOverloaded_r1_def
  by auto

lemma classify_late_r1:
  assumes late: "\<not> isInvalidKey (errorMessage_r1 e)" "\<not> isCredit_r1 (errorMessage_r1 e)"
    "\<not> isRateLimit (errorMessage_r1 e)" "\<not> isOverloaded_r1 (errorMessage_r1 e)"
  shows "getUserFriendlyError_r1 e =
     (if isSelection (errorMessage_r1 e) then codes ''Please select at least one frame to scan.''
      else if isConnection_r1 e (errorMessage_r1 e)
      then codes ''Network error. Please check your internet connection.''
      else if isParse_r1 (errorMessage_r1 e) then codes ''Error parsing AI response. Please try again.''
      else if length (errorMessage_r1 e) > 300
      then codes ''Error: '' @ take 297 (errorMessage_r1 e) @ codes ''...''
      else codes ''Error: '' @ errorMessage_r1 e)"
proof -
  define m where "m = errorMessage_r1 e"
  have dead: "matchApiError m = Some code \<Longrightarrow>
       code \<noteq> codes ''401'' \<and> code \<noteq> codes ''402'' \<and> code \<noteq> codes ''429''
       \<and> code \<noteq> codes ''503'' \<and> code \<noteq> codes ''529''"
    for code using api_block_dead_r1 [OF late [folded m_def]] .
  have blk: "(case matchApiError m of
                       None \<Rightarrow> None
                     | Some code \<Rightarrow>
                         if code = codes ''401'' then Some a
                         else if code = codes ''402'' then Some b
                         else if code = codes ''429'' then Some c
                         else if code = codes ''503'' \<or> code = codes ''529''
                         then Some f
                         else None) = None" for a b c f :: ustring
    using dead by (auto split: option.splits)
  have early: "\<not> (js_includes m (codes ''401'') \<or> js_includes (toLowerCase m) (codes ''invalid api key'')
         \<or> js_includes (toLowerCase m) (codes ''incorrect api key''))"
    "\<not> (js_includes m (codes ''402'') \<or> js_includes (toLowerCase m) (codes ''credit'')
              \<or> js_includes (toLowerCase m) (codes ''quota''))"
    "\<not> (js_includes m (codes ''429'') \<or> js_includes (toLowerCase m) (codes ''rate limit''))"
    "\<not> (js_includes m (codes ''529'') \<or> js_includes m (codes ''503'')
              \<or> js_includes (toLowerCase m) (codes ''overloaded''))"
    using late [folded m_def]
    unfolding isInvalidKey_def isRateLimit_def isCredit_r1_def isOverloaded_r1_def
    by blast+
  have "getUserFriendlyError_r1 e =
          (if js_includes (toLowerCase m) (codes ''no frames selected'') \<or> js_includes (toLowerCase m) (codes ''selection'')
             then codes ''Please select at least one frame to scan.''
             else if isTypeError e \<and> js_includes m (codes ''fetch'')
             then codes ''Network error. Please check your internet connection.''
             else if js_includes (toLowerCase m) (codes ''network'')
             then codes ''Network error. Please check your internet connection.''
             else if js_includes m (codes ''JSON'') \<or> js_includes m (codes ''parse'')
             then codes ''Error parsing AI response. Please try again.''
             else if length m > 300 then codes ''Error: '' @ take 297 m @ codes ''...''
             else codes ''Error: '' @ m)"
    unfolding getUserFriendlyError_r1_def Let_def m_def [symmetric]
    by (simp only: early if_False blk if_cancel option.case)
  also have "\<dots> = (if isSelection m then codes ''Please select at least one frame to scan.''
      else if isConnection_r1 e m
      then codes ''Network error. Please check your internet connection.''
      else if isParse_r1 m then codes ''Error parsing AI response. Please try again.''
      else if length m > 300
      then codes ''Error: '' @ take 297 m @ codes ''...''
      else codes ''Error: '' @ m)"
    unfolding isConnection_r1_def isSelection_def isParse_r1_def
    by (cases "isTypeError e \<and> js_includes m (codes ''fetch'')")
       (simp_all only: if_True if_False simp_thms)
  finally show ?thesis unfolding m_def .
qed

lemma classify_unrecognized_r1:
  "unrecognized_r1 e \<Longrightarrow>
   getUserFriendlyError_r1 e =
     (if length (errorMessage_r1 e) > 300
      then codes ''Error: '' @ take 297 (errorMessage_r1 e) @ codes ''...''
      else codes ''Error: '' @ errorMessage_r1 e)"
  using classify_late_r1 [of e] unfolding unrecognized_r1_def Let_def
  by simp

text \<open>
  Claim C5, as the code has it. The classifier tests the message for substrings in a fixed
  order, so a status is classified by the first test that the whole message passes:
  \<^item> a message containing \<open>401\<close> always yields the invalid-key message;
  \<^item> a message containing \<open>429\<close> yields the rate-limit message unless it passes the
    invalid-key test (first revision: or the 402/credit/quota test, which comes first there);
  \<^item> a message containing \<open>500\<close>, \<open>502\<close>, \<open>503\<close> or \<open>529\<close> (first revision: \<open>503\<close> or
    \<open>529\<close> only) yields the overloaded message unless it passes an earlier test;
  \<^item> a message that passes none of the tests of the classifier (\<open>unrecognized\<close>), among
    them every HTTP error with a status that is not listed and a body without the words
    looked for, is returned after \<open>Error: \<close>, whole when it has at most 300 code units and
    otherwise cut to 297 code units followed by three dots.
\<close>

theorem getUserFriendlyError_priority:
  "(js_includes (errorMessage e) (codes ''401'') \<longrightarrow>
      getUserFriendlyError e p = labelOf p @ codes '': Invalid API key. Please check your key and try again.'')
   \<and> (js_includes (errorMessage e) (codes ''429'') \<and> \<not> isInvalidKey (errorMessage e) \<longrightarrow>
      getUserFriendlyError e p = codes ''Rate limit reached. Please wait a moment and try again.'')
   \<and> ((js_includes (errorMessage e) (codes ''500'') \<or> js_includes (errorMessage e) (codes ''502'')
        \<or> js_includes (errorMessage e) (codes ''503'') \<or> js_includes (errorMessage e) (codes ''529''))
       \<and> \<not> isInvalidKey (errorMessage e) \<and> \<not> isRateLimit (errorMessage e)
       \<and> \<not> isCredit (errorMessage e) \<and> \<not> isBadRequest (errorMessage e) \<longrightarrow>
      getUserFriendlyError e p
        = labelOf p @ codes '' is experiencing issues. Please try again in a few minutes.'')
   \<and> (unrecognized e \<longrightarrow>
      getUserFriendlyError e p =
        (if length (errorMessage e) > 300
         then codes ''Error: '' @ take 297 (errorMessage e) @ codes ''...''
         else codes ''Error: '' @ errorMessage e))
   \<and> (js_includes (errorMessage_r1 e) (codes ''401'') \<longrightarrow>
      getUserFriendlyError_r1 e = codes ''Invalid API key. Please check your key and try again.'')
   \<and> (js_includes (errorMessage_r1 e) (codes ''429'') \<and> \<not> isInvalidKey (errorMessage_r1 e)
       \<and> \<not> isCredit_r1 (errorMessage_r1 e) \<longrightarrow>
      getUserFriendlyError_r1 e = codes ''Rate limit reached. Please wait a moment and try again.'')
   \<and> ((js_includes (errorMessage_r1 e) (codes ''503'') \<or> js_includes (errorMessage_r1 e) (codes ''529''))
       \<and> \<not> isInvalidKey (errorMessage_r1 e) \<and> \<not> isCredit_r1 (errorMessage_r1 e)
       \<and> \<not> isRateLimit (errorMessage_r1 e) \<longrightarrow>
      getUserFriendlyError_r1 e = codes ''AI service is overloaded. Please try again in a few seconds.'')
   \<and> (unrecognized_r1 e \<longrightarrow>
      getUserFriendlyError_r1 e =
        (if length (errorMessage_r1 e) > 300
         then codes ''Error: '' @ take 297 (errorMessage_r1 e) @ codes ''...''
         else codes ''Error: '' @ errorMessage_r1 e))"
proof -
  have a: "js_includes (errorMessage e) (codes ''401'') \<Longrightarrow> isInvalidKey (errorMessage e)"
    and a1: "js_includes (errorMessage_r1 e) (codes ''401'') \<Longrightarrow> isInvalidKey (errorMessage_r1 e)"
    by (simp_all add: isInvalidKey_def)
  have b: "js_includes (errorMessage e) (codes ''429'') \<Longrightarrow> isRateLimit (errorMessage e)"
    and b1: "js_includes (errorMessage_r1 e) (codes ''429'') \<Longrightarrow> isRateLimit (errorMessage_r1 e)"
    by (simp_all add: isRateLimit_def)
  have c: "js_includes (errorMessage e) (codes ''500'') \<or> js_includes (errorMessage e) (codes ''502'')
        \<or> js_includes (errorMessage e) (codes ''503'') \<or> js_includes (errorMessage e) (codes ''529'')
        \<Longrightarrow> isOverloaded (errorMessage e)"
    by (auto simp add: isOverloaded_def)
  have c1: "js_includes (errorMessage_r1 e) (codes ''503'') \<or> js_includes (errorMessage_r1 e) (codes ''529'')
        \<Longrightarrow> isOverloaded_r1 (errorMessage_r1 e)"
    by (auto simp add: isOverloaded_r1_def)
  show ?thesis
    using a a1 b b1 c c1
      classify_invalid_key [of e p] classify_rate_limit [of e p] classify_overloaded [of e p]
      classify_unrecognized [of e p] classify_invalid_key_r1 [of e] classify_rate_limit_r1 [of e]
      classify_overloaded_r1 [of e] classify_unrecognized_r1 [of e]
    by blast
qed

theorem getUserFriendlyError_priority_witness:
  "getUserFriendlyError (apiError (codes ''401'') (codes ''unauthorized'')) (Some openai)
     = codes ''OpenAI: Invalid API key. Please check your key and try again.''
   \<and> getUserFriendlyError (apiError (codes ''429'') (codes ''slow down'')) None
     = codes ''Rate limit reached. Please wait a moment and try again.''
   \<and> getUserFriendlyError (apiError (codes ''502'') (codes ''bad gateway'')) (Some google)
     = codes ''Google is experiencing issues. Please try again in a few minutes.''
   \<and> getUserFriendlyError (apiError (codes ''404'') (codes ''not found'')) (Some anthropic)
     = codes ''Error: API error 404: not found''
   \<and> getUserFriendlyError (JsOther (replicate 301 120)) None
     = codes ''Error: '' @ replicate 297 120 @ codes ''...''
   \<and> getUserFriendlyError_r1 (apiError (codes ''401'') (codes ''unauthorized''))
     = codes ''Invalid API key. Please check your key and try again.''
   \<and> getUserFriendlyError_r1 (apiError (codes ''429'') (codes ''slow down''))
     = codes ''Rate limit reached. Please wait a moment and try again.''
   \<and> getUserFriendlyError_r1 (apiError (codes ''529'') (codes ''busy''))
     = codes ''AI service is overloaded. Please try again in a few seconds.''
   \<and> getUserFriendlyError_r1 (apiError (codes ''500'') (codes ''internal error''))
     = codes ''Error: API error 500: internal error''"
proof -
  let ?e401 = "apiError (codes ''401'') (codes ''unauthorized'')"
  let ?e429 = "apiError (codes ''429'') (codes ''slow down'')"
  let ?e502 = "apiError (codes ''502'') (codes ''bad gateway'')"
  let ?e404 = "apiError (codes ''404'') (codes ''not found'')"
  let ?long = "JsOther (replicate 301 120)"
  let ?e529 = "apiError (codes ''529'') (codes ''busy'')"
  let ?e500 = "apiError (codes ''500'') (codes ''internal error'')"
  have h1: "js_includes (errorMessage ?e401) (codes ''401'')"
    by code_simp
  have h2: "js_includes (errorMessage ?e429) (codes ''429'') \<and> \<not> isInvalidKey (errorMessage ?e429)"
    by code_simp
  have h3: "(js_includes (errorMessage ?e502) (codes ''500'') \<or> js_includes (errorMessage ?e502) (codes ''502'')
             \<or> js_includes (errorMessage ?e502) (codes ''503'') \<or> js_includes (errorMessage ?e502) (codes ''529''))
            \<and> \<not> isInvalidKey (errorMessage ?e502) \<and> \<not> isRateLimit (errorMessage ?e502)
            \<and> \<not> isCredit (errorMessage ?e502) \<and> \<not> isBadRequest (errorMessage ?e502)"
    by code_simp
  have h4: "unrecognized ?e404"
    by code_simp
  have h4l: "unrecognized ?long"
    by code_simp
  have h5: "js_includes (errorMessage_r1 ?e401) (codes ''401'')"
    by code_simp
  have h6: "js_includes (errorMessage_r1 ?e429) (codes ''429'') \<and> \<not> isInvalidKey (errorMessage_r1 ?e429)
            \<and> \<not> isCredit_r1 (errorMessage_r1 ?e429)"
    by code_simp
  have h7: "(js_includes (errorMessage_r1 ?e529) (codes ''503'') \<or> js_includes (errorMessage_r1 ?e529) (codes ''529''))
            \<and> \<not> isInvalidKey (errorMessage_r1 ?e529) \<and> \<not> isCredit_r1 (errorMessage_r1 ?e529)
            \<and> \<not> isRateLimit (errorMessage_r1 ?e529)"
    by code_simp
  have h8: "unrecognized_r1 ?e500"
    by code_simp
  have l1: "labelOf (Some openai) @ codes '': Invalid API key. Please check your key and try again.''
              = codes ''OpenAI: Invalid API key. Please check your key and try again.''"
    by code_simp
  have l3: "labelOf (Some google) @ codes '' is experiencing issues. Please try again in a few minutes.''
              = codes ''Google is experiencing issues. Please try again in a few minutes.''"
    by code_simp
  have m4: "(if length (errorMessage ?e404) > 300
             then codes ''Error: '' @ take 297 (errorMessage ?e404) @ codes ''...''
             else codes ''Error: '' @ errorMessage ?e404) = codes ''Error: API error 404: not found''"
    by code_simp
  have m4l: "(if length (errorMessage ?long) > 300
             then codes ''Error: '' @ take 297 (errorMessage ?long) @ codes ''...''
             else codes ''Error: '' @ errorMessage ?long) = codes ''Error: '' @ replicate 297 120 @ codes ''...''"
    by code_simp
  have m8: "(if length (errorMessage_r1 ?e500) > 300
             then codes ''Error: '' @ take 297 (errorMessage_r1 ?e500) @ codes ''...''
             else codes ''Error: '' @ errorMessage_r1 ?e500) = codes ''Error: API error 500: internal error''"
    by code_simp
  have r1: "getUserFriendlyError ?e401 (Some openai)
              = codes ''OpenAI: Invalid API key. Please check your key and try again.''"
    using getUserFriendlyError_priority [of ?e401 "Some openai"] h1 l1 by simp
  have r2: "getUserFriendlyError ?e429 None = codes ''Rate limit reached. Please wait a moment and try again.''"
    using getUserFriendlyError_priority [of ?e429 None] h2 by blast
  have r3: "getUserFriendlyError ?e502 (Some google)
              = codes ''Google is experiencing issues. Please try again in a few minutes.''"
    using getUserFriendlyError_priority [of ?e502 "Some google"] h3 l3 by simp
  have r4: "getUserFriendlyError ?e404 (Some anthropic) = codes ''Error: API error 404: not found''"
    using getUserFriendlyError_priority [of ?e404 "Some anthropic"] h4 m4 by simp
  have r4l: "getUserFriendlyError ?long None = codes ''Error: '' @ replicate 297 120 @ codes ''...''"
    using getUserFriendlyError_priority [of ?long None] h4l m4l by simp
  have r5: "getUserFriendlyError_r1 ?e401 = codes ''Invalid API key. Please check your key and try again.''"
    using getUserFriendlyError_priority [of ?e401 None] h5 by blast
  have r6: "getUserFriendlyError_r1 ?e429 = codes ''Rate limit reached. Please wait a moment and try again.''"
    using getUserFriendlyError_priority [of ?e429 None] h6 by blast
  have r7: "getUserFriendlyError_r1 ?e529 = codes ''AI service is overloaded. Please try again in a few seconds.''"
    using getUserFriendlyError_priority [of ?e529 None] h7 by blast
  have r8: "getUserFriendlyError_r1 ?e500 = codes ''Error: API error 500: internal error''"
    using getUserFriendlyError_priority [of ?e500 None] h8 m8 by simp
  show ?thesis
    using r1 r2 r3 r4 r4l r5 r6 r7 r8 by blast
qed

text \<open>
  Claim C5 as written fails. A 429 response whose body contains \<open>401\<close> is reported as an
  invalid key by the second revision, and the first revision has no test for 500 at all.
\<close>

theorem getUserFriendlyError_status_counterexample:
  "getUserFriendlyError (apiError (codes ''429'') (codes ''request req_401 was throttled'')) (Some anthropic)
     = codes ''Anthropic: Invalid API key. Please check your key and try again.''
   \<and> getUserFriendlyError (apiError (codes ''429'') (codes ''request req_401 was throttled'')) (Some anthropic)
     \<noteq> codes ''Rate limit reached. Please wait a moment and try again.''
   \<and> getUserFriendlyError_r1 (apiError (codes ''500'') (codes ''internal error''))
     = codes ''Error: API error 500: internal error''
   \<and> getUserFriendlyError_r1 (apiError (codes ''500'') (codes ''internal error''))
     \<noteq> codes ''AI service is overloaded. Please try again in a few seconds.''"
  by code_simp

section \<open>Properties of the visual-spec parser\<close>











lemma truthyNameNumericSize_name:
  "truthyNameNumericSize v \<Longrightarrow>
   getProp v (codes ''name'') \<noteq> Inr None \<and> getProp v (codes ''name'') \<noteq> Inr (Some JNull)
   \<and> getProp v (codes ''name'') \<noteq> Inr (Some (JString []))
   \<and> getProp v (codes ''name'') \<noteq> Inr (Some (JBool False))"
proof -
  have t: "truthy x \<Longrightarrow> x \<noteq> None \<and> x \<noteq> Some JNull \<and> x \<noteq> Some (JString []) \<and> x \<noteq> Some (JBool False)"
    for x by (cases x rule: truthy.cases) auto
  assume "truthyNameNumericSize v"
  then show ?thesis
    by (auto simp: truthyNameNumericSize_def getProp_def split: json.splits dest: t)
qed

lemma truthyNameNumericSize_size:
  "truthyNameNumericSize v \<Longrightarrow>
   (\<exists>neg m e. getProp v (codes ''width'') = Inr (Some (JNumber neg m e)))
   \<and> (\<exists>neg m e. getProp v (codes ''height'') = Inr (Some (JNumber neg m e)))"
proof -
  have num: "isNumber x \<Longrightarrow> \<exists>neg m e. x = Some (JNumber neg m e)" for x
    by (cases x rule: isNumber.cases) auto
  assume "truthyNameNumericSize v"
  then show ?thesis
    by (auto simp: truthyNameNumericSize_def getProp_def split: json.splits dest: num)
qed






section \<open>Properties of the flow-analysis parser\<close>

lemma splitGo_no_occurrence:
  "sep \<noteq> [] \<Longrightarrow> \<forall>i. \<not> occursAt sep s i \<Longrightarrow> splitGo sep 0 cur s = [rev cur @ s]"
proof (induction s arbitrary: cur)
  case Nil
  then show ?case by simp
next
  case (Cons c cs)
  have here: "\<not> ustartsWith (c # cs) sep"
    using Cons.prems(2) [rule_format, of 0] by (simp add: occursAt_def)
  have later: "\<forall>i. \<not> occursAt sep cs i"
  proof
    fix i
    show "\<not> occursAt sep cs i"
      using Cons.prems(2) [rule_format, of "Suc i"] by (simp add: occursAt_def)
  qed
  show ?case
    using here Cons.IH [OF Cons.prems(1) later] by simp
qed

lemma splitGo_first_piece:
  "sep \<noteq> [] \<Longrightarrow> \<forall>i < length pre. \<not> occursAt sep (pre @ sep @ post) i \<Longrightarrow>
   hd (splitGo sep 0 cur (pre @ sep @ post)) = rev cur @ pre"
proof (induction pre arbitrary: cur)
  case Nil
  obtain c cs where sp: "sep @ post = c # cs"
    using Nil.prems(1) by (cases "sep @ post") auto
  have "ustartsWith (c # cs) sep"
    using ustartsWith_append [of sep post] sp by simp
  then show ?case using sp by simp
next
  case (Cons c pre)
  have here: "\<not> ustartsWith (c # pre @ sep @ post) sep"
    using Cons.prems(2) [rule_format, of 0] by (simp add: occursAt_def)
  have later: "\<forall>i < length pre. \<not> occursAt sep (pre @ sep @ post) i"
  proof (intro allI impI)
    fix i
    assume "i < length pre"
    then show "\<not> occursAt sep (pre @ sep @ post) i"
      using Cons.prems(2) [rule_format, of "Suc i"] by (simp add: occursAt_def)
  qed
  show ?case
    using here Cons.IH [OF Cons.prems(1) later] by simp
qed

lemma extractMissingScreens_degrades:
  "edgePart = [] \<or> matchBraces edgePart = None
   \<or> (\<exists>m. matchBraces edgePart = Some m \<and> JSON_parse m = None)
   \<Longrightarrow> extractMissingScreens edgePart = []"
  by (auto simp: extractMissingScreens_def tryParseMissing_def)

text \<open>What holds of claim C3: without the delimiter the function returns the trimmed text
  and no missing screens; whenever it returns, the flow text is the trimmed text before the
  first delimiter.\<close>

lemma runScanFlowWithEdgeCases_no_delimiter:
  assumes "\<forall>i. \<not> occursAt (codes ''---EDGE-CASES---'') text i"
  shows "runScanFlowWithEdgeCases text =
           Inr \<lparr>flowText = trim text, missingScreens = [], edgeDocumentation = [[Lit (trim text)]]\<rparr>"
proof -
  have ne: "codes ''---EDGE-CASES---'' \<noteq> []"
    by (simp add: codes_def)
  have sp: "split text (codes ''---EDGE-CASES---'') = [text]"
    using splitGo_no_occurrence [OF ne assms, of "[]"] by (simp add: split_def)
  have tr: "trim [] = []"
    by (simp add: trim_def dropWhileEnd_def)
  show ?thesis
    by (simp add: runScanFlowWithEdgeCases_def sp tr extractMissingScreens_def Let_def)
qed

lemma runScanFlowWithEdgeCases_flowText:
  assumes "runScanFlowWithEdgeCases (pre @ codes ''---EDGE-CASES---'' @ post) = Inr r"
    and "\<forall>i < length pre. \<not> occursAt (codes ''---EDGE-CASES---'') (pre @ codes ''---EDGE-CASES---'' @ post) i"
  shows "flowText r = trim pre"
proof -
  have ne: "codes ''---EDGE-CASES---'' \<noteq> []"
    by (simp add: codes_def)
  have hd: "hd (split (pre @ codes ''---EDGE-CASES---'' @ post) (codes ''---EDGE-CASES---'')) = pre"
    using splitGo_first_piece [OF ne assms(2), of "[]"] by (simp add: split_def)
  show ?thesis
    using assms(1) unfolding runScanFlowWithEdgeCases_def Let_def hd
    by (auto split: if_splits sum.splits)
qed

text \<open>
  Claim C3 fails on the code: for the response below, whose JSON is well formed and whose
  only missing screen has no severity, \<open>formatEdgeCaseMarkdown\<close> reads
  \<^verbatim>\<open>item.severity.charAt\<close> of \<^verbatim>\<open>undefined\<close>, and \<open>runScanFlowWithEdgeCases\<close> throws a
  \<^verbatim>\<open>TypeError\<close> to its caller instead of returning the flow text.
\<close>

theorem runScanFlowWithEdgeCases_throws:
  \<open>runScanFlowWithEdgeCases
     (codes ''Flow overview.'' @ [10] @ codes ''---EDGE-CASES---'' @ [10]
      @ codes ''{"missing_screens":[{"name":"Offline"}]}'')
   = Inl EngineTypeError\<close>
  by code_simp

lemma matchBraces_Some_nonempty: "matchBraces s = Some m \<Longrightarrow> s \<noteq> []"
  by (auto simp: matchBraces_def Let_def split: if_splits)

lemma collectPieces_strings:
  "collectPieces (map JString cs) = Inr (map (\<lambda>c. [Lit (codes ''- ''), Str (Some (JString c))]) cs)"
  by (induction cs) (simp_all add: strPiece_def)

lemma componentLines_strings:
  "componentLines (Some (JArray (map JString cs))) =
     Inr (if cs = [] then []
          else [Lit (codes ''**Components Needed:**'')]
               # map (\<lambda>c. [Lit (codes ''- ''), Str (Some (JString c))]) cs)"
  by (simp add: componentLines_def collectPieces_strings)

lemma itemLines_strings:
  assumes "getProp item (codes ''name'') = Inr (Some (JString n))"
    and "getProp item (codes ''reason'') = Inr (Some (JString r))"
    and "getProp item (codes ''components_needed'') = Inr (Some (JArray (map JString cs)))"
    and "getProp item (codes ''severity'') = Inr (Some (JString sev))"
    and "getProp item (codes ''reference_screen'') = Inr (Some (JString ref))"
  shows "itemLines i item =
     Inr ([[],
           [Lit (codes ''### ''), Num (i + 1), Lit (codes ''. ''), Str (Some (JString n))],
           [Lit (codes ''**Severity:** ''), iconPiece sev, Lit (codes '' ''),
            Upper (take 1 sev), Lit (drop 1 sev)],
           [Lit (codes ''**Reason:** ''), Str (Some (JString r))]]
          @ (if cs = [] then []
             else [Lit (codes ''**Components Needed:**'')]
                  # map (\<lambda>c. [Lit (codes ''- ''), Str (Some (JString c))]) cs)
          @ [[Lit (codes ''**Reference Screen:** ''), Str (Some (JString ref))], [],
             [Lit (codes ''---'')]])"
  unfolding itemLines_def assms andThen_def
  by (simp add: strPiece_def componentLines_strings)

lemma iconPiece_other:
  "sev \<notin> {codes ''high'', codes ''medium'', codes ''low''} \<Longrightarrow>
   iconPiece sev = (if sev \<in> set objectPrototypeKeys then Inherited sev else Lit icon_fallback)"
  by (simp add: iconPiece_def severityIcon_def)

lemma countSeverity_single:
  "getProp item (codes ''severity'') = Inr (Some (JString sev)) \<Longrightarrow> sev \<noteq> level \<Longrightarrow>
   countSeverity level [item] = 0"
  by (simp add: countSeverity_def)

lemma runScanFlowWithEdgeCases_accepts:
  assumes sp: "split resp (codes ''---EDGE-CASES---'') = pre # post # others"
    and m: "matchBraces (trim post) = Some m"
    and p: "JSON_parse m = Some (JObject kvs)"
    and ms: "map_of (rev kvs) (codes ''missing_screens'') = Some (JArray xs)"
    and ne: "xs \<noteq> []"
    and doc: "formatEdgeCaseMarkdown xs = Inr doc"
  shows "runScanFlowWithEdgeCases resp
           = Inr \<lparr>flowText = trim pre, missingScreens = xs, edgeDocumentation = doc\<rparr>"
proof -
  have "trim post \<noteq> []"
    using m by (rule matchBraces_Some_nonempty)
  then have ex: "extractMissingScreens (trim post) = xs"
    using m p ms by (simp add: extractMissingScreens_def tryParseMissing_def andThen_def getProp_def)
  show ?thesis
    unfolding runScanFlowWithEdgeCases_def Let_def sp
    using ex ne doc by simp
qed

text \<open>
  Claim C2, as the code has it. The entries of \<^verbatim>\<open>missing_screens\<close> are not validated.
  When the text after the delimiter has a brace match that parses to an object whose
  \<^verbatim>\<open>missing_screens\<close> is an array, the missing screens are the elements of that array as
  they are, whatever their severity, and \<open>runScanFlowWithEdgeCases\<close> returns them whenever
  \<open>formatEdgeCaseMarkdown\<close> returns. For an entry whose fields have the declared types
  except that its severity is a string other than \<^verbatim>\<open>high\<close>, \<^verbatim>\<open>medium\<close> and \<^verbatim>\<open>low\<close>,
  \<open>formatEdgeCaseMarkdown\<close> returns a document: the line of the entry carries the fallback
  icon (for a severity that is the name of a property that the icon table inherits, such as
  \<^verbatim>\<open>constructor\<close>, the inherited value in its place), and the summary counts the entry
  under none of the three severities.
\<close>

theorem missing_screens_not_validated:
  "(matchBraces edgePart = Some m \<and> JSON_parse m = Some (JObject kvs)
    \<and> map_of (rev kvs) (codes ''missing_screens'') = Some (JArray xs)
    \<longrightarrow> extractMissingScreens edgePart = xs)
   \<and> (split resp (codes ''---EDGE-CASES---'') = pre # post # others
      \<and> matchBraces (trim post) = Some m \<and> JSON_parse m = Some (JObject kvs)
      \<and> map_of (rev kvs) (codes ''missing_screens'') = Some (JArray xs) \<and> xs \<noteq> []
      \<and> formatEdgeCaseMarkdown xs = Inr doc
      \<longrightarrow> runScanFlowWithEdgeCases resp
            = Inr \<lparr>flowText = trim pre, missingScreens = xs, edgeDocumentation = doc\<rparr>)
   \<and> (getProp item (codes ''name'') = Inr (Some (JString n))
      \<and> getProp item (codes ''reason'') = Inr (Some (JString r))
      \<and> getProp item (codes ''components_needed'') = Inr (Some (JArray (map JString cs)))
      \<and> getProp item (codes ''severity'') = Inr (Some (JString sev))
      \<and> getProp item (codes ''reference_screen'') = Inr (Some (JString ref))
      \<and> sev \<notin> {codes ''high'', codes ''medium'', codes ''low''}
      \<longrightarrow> formatEdgeCaseMarkdown [item] =
            Inr ([[Lit (codes ''# Edge Cases Analysis'')], [],
                  [Lit (codes ''## Missing Screens Detected: ''), Num 1], [],
                  [Lit (codes ''---'')],
                  [],
                  [Lit (codes ''### ''), Num 1, Lit (codes ''. ''), Str (Some (JString n))],
                  [Lit (codes ''**Severity:** ''),
                   (if sev \<in> set objectPrototypeKeys then Inherited sev else Lit icon_fallback),
                   Lit (codes '' ''), Upper (take 1 sev), Lit (drop 1 sev)],
                  [Lit (codes ''**Reason:** ''), Str (Some (JString r))]]
                 @ (if cs = [] then []
                    else [Lit (codes ''**Components Needed:**'')]
                         # map (\<lambda>c. [Lit (codes ''- ''), Str (Some (JString c))]) cs)
                 @ [[Lit (codes ''**Reference Screen:** ''), Str (Some (JString ref))], [],
                    [Lit (codes ''---'')],
                    [], [Lit (codes ''## Summary'')],
                    [Lit (codes ''- ''), Lit icon_high, Lit (codes '' High severity: ''), Num 0,
                     Lit (codes '' screen''), Lit (codes ''s'')],
                    [Lit (codes ''- ''), Lit icon_medium, Lit (codes '' Medium severity: ''), Num 0,
                     Lit (codes '' screen''), Lit (codes ''s'')],
                    [Lit (codes ''- ''), Lit icon_low, Lit (codes '' Low severity: ''), Num 0,
                     Lit (codes '' screen''), Lit (codes ''s'')],
                    [],
                    [Lit (codes ''Total missing screens: ''), Num 1]]))"
proof (intro conjI impI)
  assume "matchBraces edgePart = Some m \<and> JSON_parse m = Some (JObject kvs)
    \<and> map_of (rev kvs) (codes ''missing_screens'') = Some (JArray xs)"
  then show "extractMissingScreens edgePart = xs"
    by (auto simp: extractMissingScreens_def tryParseMissing_def andThen_def getProp_def
        dest: matchBraces_Some_nonempty)
next
  assume "split resp (codes ''---EDGE-CASES---'') = pre # post # others
      \<and> matchBraces (trim post) = Some m \<and> JSON_parse m = Some (JObject kvs)
      \<and> map_of (rev kvs) (codes ''missing_screens'') = Some (JArray xs) \<and> xs \<noteq> []
      \<and> formatEdgeCaseMarkdown xs = Inr doc"
  then show "runScanFlowWithEdgeCases resp
            = Inr \<lparr>flowText = trim pre, missingScreens = xs, edgeDocumentation = doc\<rparr>"
    using runScanFlowWithEdgeCases_accepts [of resp pre post others m kvs xs doc] by blast
next
  assume h: "getProp item (codes ''name'') = Inr (Some (JString n))
      \<and> getProp item (codes ''reason'') = Inr (Some (JString r))
      \<and> getProp item (codes ''components_needed'') = Inr (Some (JArray (map JString cs)))
      \<and> getProp item (codes ''severity'') = Inr (Some (JString sev))
      \<and> getProp item (codes ''reference_screen'') = Inr (Some (JString ref))
      \<and> sev \<notin> {codes ''high'', codes ''medium'', codes ''low''}"
  then have il: "itemLines 0 item =
     Inr ([[],
           [Lit (codes ''### ''), Num (0 + 1), Lit (codes ''. ''), Str (Some (JString n))],
           [Lit (codes ''**Severity:** ''), iconPiece sev, Lit (codes '' ''),
            Upper (take 1 sev), Lit (drop 1 sev)],
           [Lit (codes ''**Reason:** ''), Str (Some (JString r))]]
          @ (if cs = [] then []
             else [Lit (codes ''**Components Needed:**'')]
                  # map (\<lambda>c. [Lit (codes ''- ''), Str (Some (JString c))]) cs)
          @ [[Lit (codes ''**Reference Screen:** ''), Str (Some (JString ref))], [],
             [Lit (codes ''---'')]])"
    using itemLines_strings [of item n r cs sev ref 0] by blast
  have ic: "iconPiece sev = (if sev \<in> set objectPrototypeKeys then Inherited sev else Lit icon_fallback)"
    using h iconPiece_other [of sev] by blast
  have c: "countSeverity (codes ''high'') [item] = 0" "countSeverity (codes ''medium'') [item] = 0"
    "countSeverity (codes ''low'') [item] = 0"
    using h countSeverity_single [of item sev] by auto
  have pl: "plural 0 = codes ''s''"
    by (simp add: plural_def)
  show "formatEdgeCaseMarkdown [item] =
            Inr ([[Lit (codes ''# Edge Cases Analysis'')], [],
                  [Lit (codes ''## Missing Screens Detected: ''), Num 1], [],
                  [Lit (codes ''---'')],
                  [],
                  [Lit (codes ''### ''), Num 1, Lit (codes ''. ''), Str (Some (JString n))],
                  [Lit (codes ''**Severity:** ''),
                   (if sev \<in> set objectPrototypeKeys then Inherited sev else Lit icon_fallback),
                   Lit (codes '' ''), Upper (take 1 sev), Lit (drop 1 sev)],
                  [Lit (codes ''**Reason:** ''), Str (Some (JString r))]]
                 @ (if cs = [] then []
                    else [Lit (codes ''**Components Needed:**'')]
                         # map (\<lambda>c. [Lit (codes ''- ''), Str (Some (JString c))]) cs)
                 @ [[Lit (codes ''**Reference Screen:** ''), Str (Some (JString ref))], [],
                    [Lit (codes ''---'')],
                    [], [Lit (codes ''## Summary'')],
                    [Lit (codes ''- ''), Lit icon_high, Lit (codes '' High severity: ''), Num 0,
                     Lit (codes '' screen''), Lit (codes ''s'')],
                    [Lit (codes ''- ''), Lit icon_medium, Lit (codes '' Medium severity: ''), Num 0,
                     Lit (codes '' screen''), Lit (codes ''s'')],
                    [Lit (codes ''- ''), Lit icon_low, Lit (codes '' Low severity: ''), Num 0,
                     Lit (codes '' screen''), Lit (codes ''s'')],
                    [],
                    [Lit (codes ''Total missing screens: ''), Num 1]])"
    unfolding formatEdgeCaseMarkdown_def Let_def
    by (simp add: il ic c pl)
qed


theorem missing_screens_not_validated_witness:
  \<open>map_sum id missingScreens
     (runScanFlowWithEdgeCases
        (codes ''Flow.'' @ [10] @ codes ''---EDGE-CASES---'' @ [10]
         @ codes ''{"missing_screens":[{"name":"Offline","reason":"No network","components_needed":["Banner"],"severity":"urgent","reference_screen":"Home"}]}''))
   = Inr [JObject [(codes ''name'', JString (codes ''Offline'')),
                   (codes ''reason'', JString (codes ''No network'')),
                   (codes ''components_needed'', JArray [JString (codes ''Banner'')]),
                   (codes ''severity'', JString (codes ''urgent'')),
                   (codes ''reference_screen'', JString (codes ''Home''))]]
   \<and> formatEdgeCaseMarkdown
         [JObject [(codes ''name'', JString (codes ''Offline'')),
                   (codes ''reason'', JString (codes ''No network'')),
                   (codes ''components_needed'', JArray [JString (codes ''Banner'')]),
                   (codes ''severity'', JString (codes ''urgent'')),
                   (codes ''reference_screen'', JString (codes ''Home''))]]
     = Inr [[Lit (codes ''# Edge Cases Analysis'')], [],
            [Lit (codes ''## Missing Screens Detected: ''), Num 1], [],
            [Lit (codes ''---'')],
            [],
            [Lit (codes ''### ''), Num 1, Lit (codes ''. ''), Str (Some (JString (codes ''Offline'')))],
            [Lit (codes ''**Severity:** ''), Lit icon_fallback, Lit (codes '' ''),
             Upper (codes ''u''), Lit (codes ''rgent'')],
            [Lit (codes ''**Reason:** ''), Str (Some (JString (codes ''No network'')))],
            [Lit (codes ''**Components Needed:**'')],
            [Lit (codes ''- ''), Str (Some (JString (codes ''Banner'')))],
            [Lit (codes ''**Reference Screen:** ''), Str (Some (JString (codes ''Home'')))], [],
            [Lit (codes ''---'')],
            [], [Lit (codes ''## Summary'')],
            [Lit (codes ''- ''), Lit icon_high, Lit (codes '' High severity: ''), Num 0,
             Lit (codes '' screen''), Lit (codes ''s'')],
            [Lit (codes ''- ''), Lit icon_medium, Lit (codes '' Medium severity: ''), Num 0,
             Lit (codes '' screen''), Lit (codes ''s'')],
            [Lit (codes ''- ''), Lit icon_low, Lit (codes '' Low severity: ''), Num 0,
             Lit (codes '' screen''), Lit (codes ''s'')],
            [],
            [Lit (codes ''Total missing screens: ''), Num 1]]\<close>
proof -
  let ?json = \<open>codes ''{"missing_screens":[{"name":"Offline","reason":"No network","components_needed":["Banner"],"severity":"urgent","reference_screen":"Home"}]}''\<close>
  let ?resp = "codes ''Flow.'' @ [10] @ codes ''---EDGE-CASES---'' @ [10] @ ?json"
  let ?item = "JObject [(codes ''name'', JString (codes ''Offline'')),
                   (codes ''reason'', JString (codes ''No network'')),
                   (codes ''components_needed'', JArray [JString (codes ''Banner'')]),
                   (codes ''severity'', JString (codes ''urgent'')),
                   (codes ''reference_screen'', JString (codes ''Home''))]"
  let ?kvs = "[(codes ''missing_screens'', JArray [?item])]"
  let ?doc = "[[Lit (codes ''# Edge Cases Analysis'')], [],
            [Lit (codes ''## Missing Screens Detected: ''), Num 1], [],
            [Lit (codes ''---'')],
            [],
            [Lit (codes ''### ''), Num 1, Lit (codes ''. ''), Str (Some (JString (codes ''Offline'')))],
            [Lit (codes ''**Severity:** ''), Lit icon_fallback, Lit (codes '' ''),
             Upper (codes ''u''), Lit (codes ''rgent'')],
            [Lit (codes ''**Reason:** ''), Str (Some (JString (codes ''No network'')))],
            [Lit (codes ''**Components Needed:**'')],
            [Lit (codes ''- ''), Str (Some (JString (codes ''Banner'')))],
            [Lit (codes ''**Reference Screen:** ''), Str (Some (JString (codes ''Home'')))], [],
            [Lit (codes ''---'')],
            [], [Lit (codes ''## Summary'')],
            [Lit (codes ''- ''), Lit icon_high, Lit (codes '' High severity: ''), Num 0,
             Lit (codes '' screen''), Lit (codes ''s'')],
            [Lit (codes ''- ''), Lit icon_medium, Lit (codes '' Medium severity: ''), Num 0,
             Lit (codes '' screen''), Lit (codes ''s'')],
            [Lit (codes ''- ''), Lit icon_low, Lit (codes '' Low severity: ''), Num 0,
             Lit (codes '' screen''), Lit (codes ''s'')],
            [],
            [Lit (codes ''Total missing screens: ''), Num 1]]"
  have g: "getProp ?item (codes ''name'') = Inr (Some (JString (codes ''Offline'')))
      \<and> getProp ?item (codes ''reason'') = Inr (Some (JString (codes ''No network'')))
      \<and> getProp ?item (codes ''components_needed'') = Inr (Some (JArray (map JString [codes ''Banner''])))
      \<and> getProp ?item (codes ''severity'') = Inr (Some (JString (codes ''urgent'')))
      \<and> getProp ?item (codes ''reference_screen'') = Inr (Some (JString (codes ''Home'')))
      \<and> codes ''urgent'' \<notin> {codes ''high'', codes ''medium'', codes ''low''}"
    by code_simp
  have k: "codes ''urgent'' \<notin> set objectPrototypeKeys"
    by code_simp
  have u: "take 1 (codes ''urgent'') = codes ''u''" "drop 1 (codes ''urgent'') = codes ''rgent''"
    by code_simp+
  have f: "formatEdgeCaseMarkdown [?item] = Inr ?doc"
    using missing_screens_not_validated
            [where item = ?item and n = "codes ''Offline''" and r = "codes ''No network''"
               and cs = "[codes ''Banner'']" and sev = "codes ''urgent''" and ref = "codes ''Home''"]
          g k u
    by simp
  have sp: "split ?resp (codes ''---EDGE-CASES---'') = (codes ''Flow.'' @ [10]) # ([10] @ ?json) # []"
    by code_simp
  have m: "matchBraces (trim ([10] @ ?json)) = Some ?json"
    by code_simp
  have p: "JSON_parse ?json = Some (JObject ?kvs)"
    by code_simp
  have l: "map_of (rev ?kvs) (codes ''missing_screens'') = Some (JArray [?item])"
    by code_simp
  have t: "trim (codes ''Flow.'' @ [10]) = codes ''Flow.''"
    by code_simp
  have "runScanFlowWithEdgeCases ?resp
          = Inr \<lparr>flowText = trim (codes ''Flow.'' @ [10]), missingScreens = [?item],
                 edgeDocumentation = ?doc\<rparr>"
    using missing_screens_not_validated
            [where resp = ?resp and pre = "codes ''Flow.'' @ [10]" and post = "[10] @ ?json"
               and others = "[]" and m = ?json and kvs = ?kvs and xs = "[?item]" and doc = ?doc]
          sp m p l f
    by blast
  then have "map_sum id missingScreens (runScanFlowWithEdgeCases ?resp) = Inr [?item]"
    by simp
  then show ?thesis
    using f by blast
qed

text \<open>
  Claim C2 as written fails: a response whose missing screen has the severity
  \<^verbatim>\<open>critical\<close> is not a parse failure. The entry is returned with that severity, which is
  none of the three enumerated values, and its line in the document carries the fallback
  icon.
\<close>

theorem severity_critical_counterexample:
  \<open>map_sum id missingScreens
     (runScanFlowWithEdgeCases
        (codes ''Flow.'' @ [10] @ codes ''---EDGE-CASES---'' @ [10]
         @ codes ''{"missing_screens":[{"name":"Offline","reason":"No network","components_needed":[],"severity":"critical","reference_screen":"Home"}]}''))
   = Inr [JObject [(codes ''name'', JString (codes ''Offline'')),
                   (codes ''reason'', JString (codes ''No network'')),
                   (codes ''components_needed'', JArray []),
                   (codes ''severity'', JString (codes ''critical'')),
                   (codes ''reference_screen'', JString (codes ''Home''))]]
   \<and> codes ''critical'' \<notin> {codes ''high'', codes ''medium'', codes ''low''}
   \<and> itemLines 0 (JObject [(codes ''name'', JString (codes ''Offline'')),
                   (codes ''reason'', JString (codes ''No network'')),
                   (codes ''components_needed'', JArray []),
                   (codes ''severity'', JString (codes ''critical'')),
                   (codes ''reference_screen'', JString (codes ''Home''))])
     = Inr [[],
            [Lit (codes ''### ''), Num 1, Lit (codes ''. ''), Str (Some (JString (codes ''Offline'')))],
            [Lit (codes ''**Severity:** ''), Lit icon_fallback, Lit (codes '' ''),
             Upper (codes ''c''), Lit (codes ''ritical'')],
            [Lit (codes ''**Reason:** ''), Str (Some (JString (codes ''No network'')))],
            [Lit (codes ''**Reference Screen:** ''), Str (Some (JString (codes ''Home'')))],
            [], [Lit (codes ''---'')]]\<close>
  by code_simp


section \<open>Properties of the orchestrator\<close>

lemma withSession_sameSession: "sameSession w (withSession a body w)"
  by (simp add: sameSession_def withSession_def Let_def split: prod.splits sum.splits)

lemma guarded_sameSession: "sameSession w (guarded en a body w)"
  using withSession_sameSession [of w a body] by (simp add: guarded_def sameSession_def)

lemma guarded_precondition:
  "selection en = [] \<or> keyOf a (sess w) = [] \<Longrightarrow>
   \<exists>m. guarded en a body w = w\<lparr>trace := trace w @ [ToUI (MsgError m)]\<rparr>"
  by (auto simp: guarded_def)

text \<open>
  Claim C7. Whatever the environment does and however the body ends (normally, or by an
  exception that the \<^verbatim>\<open>catch\<close> block reports), every documentation, flow-analysis and
  regeneration handler leaves \<open>apiKey\<close>, \<open>projectContext\<close> and \<open>currentProvider\<close> with
  the values they had when the handler was called.
\<close>

theorem session_fields_restored:
  "sameSession w (handleScanScreens en a opts w)
   \<and> sameSession w (handleScanScreens_r1 en a w)
   \<and> sameSession w (handleScanFlow en a w)
   \<and> sameSession w (handleScanFlow_r1 en a w)
   \<and> sameSession w (handleGenerateMissingScreens en a items w)"
proof -
  have "sameSession w (handleGenerateMissingScreens en a items w)"
    using withSession_sameSession [of w a "generateBody en a items"]
    by (simp add: handleGenerateMissingScreens_def sameSession_def)
  then show ?thesis
    by (simp add: handleScanScreens_def handleScanScreens_r1_def handleScanFlow_def
        handleScanFlow_r1_def guarded_sameSession)
qed

theorem session_fields_restored_witness:
  "sameSession (freshWorld ''old-key'')
     (handleScanFlow (failing [screenNamed ''Home'']) (uiArgs ''new-key'') (freshWorld ''old-key''))
   \<and> apiKey (sess (handleScanFlow (failing [screenNamed ''Home'']) (uiArgs ''new-key'')
                      (freshWorld ''old-key''))) = codes ''old-key''
   \<and> trace (handleScanFlow (failing [screenNamed ''Home'']) (uiArgs ''new-key'') (freshWorld ''old-key''))
     = [ToUI (MsgProgress AnalyzingFlow), Document ExtractDesignSystem,
        Fetch 0 \<lparr>callProvider = openai, callKey = codes ''new-key'', callModel = codes ''gpt-4o'',
                 callContext = codes ''shop'', callRequest = FlowRequest [screenNamed ''Home'']\<rparr>,
        ToUI (MsgErrorOf (Thrown (apiError (codes ''500'') (codes ''internal''))) openai)]"
proof -
  have t: "trace (handleScanFlow (failing [screenNamed ''Home'']) (uiArgs ''new-key'') (freshWorld ''old-key''))
     = [ToUI (MsgProgress AnalyzingFlow), Document ExtractDesignSystem,
        Fetch 0 \<lparr>callProvider = openai, callKey = codes ''new-key'', callModel = codes ''gpt-4o'',
                 callContext = codes ''shop'', callRequest = FlowRequest [screenNamed ''Home'']\<rparr>,
        ToUI (MsgErrorOf (Thrown (apiError (codes ''500'') (codes ''internal''))) openai)]"
    by code_simp
  have k: "apiKey (sess (freshWorld ''old-key'')) = codes ''old-key''"
    by (simp add: freshWorld_def)
  show ?thesis
    using session_fields_restored
            [of "freshWorld ''old-key''" "failing [screenNamed ''Home'']" "uiArgs ''new-key''"]
          t k
    by (simp add: sameSession_def)
qed

text \<open>
  Claim C6, as the code has it. The documentation and flow-analysis handlers, called with no
  screen selected or with no API key, do nothing but send one error notification: no
  provider call is made and the state is unchanged. The regeneration handler has another
  guard: without a key or without missing screens it returns silently, sending nothing; the
  selection is not a precondition of it.
\<close>

theorem precondition_violations:
  "(selection en = [] \<or> keyOf a (sess w) = [] \<longrightarrow>
      (\<exists>m. handleScanScreens en a opts w = w\<lparr>trace := trace w @ [ToUI (MsgError m)]\<rparr>)
      \<and> (\<exists>m. handleScanScreens_r1 en a w = w\<lparr>trace := trace w @ [ToUI (MsgError m)]\<rparr>)
      \<and> (\<exists>m. handleScanFlow en a w = w\<lparr>trace := trace w @ [ToUI (MsgError m)]\<rparr>)
      \<and> (\<exists>m. handleScanFlow_r1 en a w = w\<lparr>trace := trace w @ [ToUI (MsgError m)]\<rparr>))
   \<and> (keyOf a (sess w) = [] \<or> items = [] \<longrightarrow> handleGenerateMissingScreens en a items w = w)"
  using guarded_precondition [of en a w]
  by (simp add: handleScanScreens_def handleScanScreens_r1_def handleScanFlow_def
      handleScanFlow_r1_def handleGenerateMissingScreens_def)

theorem precondition_violations_witness:
  "handleScanScreens (answering [] ''text'') (uiArgs ''key'') noOptions (freshWorld ''key'')
     = (freshWorld ''key'')\<lparr>trace := [ToUI (MsgError ''Please select at least one frame.'')]\<rparr>
   \<and> handleScanFlow (answering [screenNamed ''Home''] ''text'') (uiArgs '''') (freshWorld '''')
     = (freshWorld '''')\<lparr>trace := [ToUI (MsgError ''Please set and validate your API key first.'')]\<rparr>
   \<and> handleGenerateMissingScreens (answering [] ''text'') (uiArgs ''key'') [] (freshWorld ''key'')
     = freshWorld ''key''"
proof -
  have s: "selection (answering [] ''text'') = []"
    by (simp add: answering_def)
  have k: "keyOf (uiArgs '''') (sess (freshWorld '''')) = []"
    by code_simp
  have a: "handleScanScreens (answering [] ''text'') (uiArgs ''key'') noOptions (freshWorld ''key'')
     = (freshWorld ''key'')\<lparr>trace := [ToUI (MsgError ''Please select at least one frame.'')]\<rparr>"
    by (simp add: handleScanScreens_def guarded_def s freshWorld_def)
  have b: "handleScanFlow (answering [screenNamed ''Home''] ''text'') (uiArgs '''') (freshWorld '''')
     = (freshWorld '''')\<lparr>trace := [ToUI (MsgError ''Please set and validate your API key first.'')]\<rparr>"
    by (simp add: handleScanFlow_def guarded_def k answering_def) (simp add: freshWorld_def)
  show ?thesis
    using precondition_violations
            [of "answering [] ''text''" "uiArgs ''key''" "freshWorld ''key''" noOptions "[]"]
          a b
    by simp
qed

text \<open>
  Claim C6 as written fails for the regeneration action. Called without an API key it sends
  no notification at all; called with a key and a missing screen while nothing is selected
  (and nothing cached) it goes on to call the provider, twice here since the answer has no
  JSON.
\<close>

theorem regeneration_guard_counterexample:
  "keyOf (uiArgs '''') (sess (freshWorld '''')) = []
   \<and> filter isErrorNotification
        (trace (handleGenerateMissingScreens (answering [] ''text'') (uiArgs '''') [offlineItem]
                  (freshWorld ''''))) = []
   \<and> selection (answering [] ''text'') = []
   \<and> length (filter isFetch
        (trace (handleGenerateMissingScreens (answering [] ''text'') (uiArgs ''key'') [offlineItem]
                  (freshWorld ''key'')))) = 2"
  by code_simp

text \<open>
  Claim C1 (second revision, where the batches are). With seven screens selected, a key,
  document operations that succeed and a provider that answers the seven calls with the
  texts \<open>t0\<close>, ..., \<open>t6\<close>, the documentation handler does exactly this: it starts the five
  requests of the first batch, has all five results, reports progress, pauses once for
  2000 ms, starts the two requests of the second batch, has both results, reports progress
  without pausing again, and then creates the cards of the seven screens in selection order,
  each with the text of its own request.
\<close>

theorem seven_screens_two_batches:
  assumes sel: "selection en = [f0, f1, f2, f3, f4, f5, f6]"
    and key: "keyOf a (sess w) \<noteq> []"
    and doc: "\<forall>op. collab en op = None"
    and v: "vendor en (calls w) = Inr t0" "vendor en (Suc (calls w)) = Inr t1"
      "vendor en (Suc (Suc (calls w))) = Inr t2" "vendor en (Suc (Suc (Suc (calls w)))) = Inr t3"
      "vendor en (Suc (Suc (Suc (Suc (calls w))))) = Inr t4"
      "vendor en (Suc (Suc (Suc (Suc (Suc (calls w)))))) = Inr t5"
      "vendor en (Suc (Suc (Suc (Suc (Suc (Suc (calls w))))))) = Inr t6"
  shows "trace (handleScanScreens en a opts w) =
     trace w @
     [Document ExtractDesignSystem,
      Fetch (calls w) (screenCall a w (Some opts) f0 0),
      Fetch (calls w + 1) (screenCall a w (Some opts) f1 1),
      Fetch (calls w + 2) (screenCall a w (Some opts) f2 2),
      Fetch (calls w + 3) (screenCall a w (Some opts) f3 3),
      Fetch (calls w + 4) (screenCall a w (Some opts) f4 4),
      BatchResolved 5,
      ToUI (MsgProgress (ProcessingFrames 5 7)),
      Delay 2000,
      Fetch (calls w + 5) (screenCall a w (Some opts) f5 5),
      Fetch (calls w + 6) (screenCall a w (Some opts) f6 6),
      BatchResolved 2,
      ToUI (MsgProgress (ProcessingFrames 7 7)),
      ToUI (MsgProgress CreatingCards),
      Document (CreateDocCards 0 (frameName f0) t0),
      Document (CreateDocCards 1 (frameName f1) t1),
      Document (CreateDocCards 2 (frameName f2) t2),
      Document (CreateDocCards 3 (frameName f3) t3),
      Document (CreateDocCards 4 (frameName f4) t4),
      Document (CreateDocCards 5 (frameName f5) t5),
      Document (CreateDocCards 6 (frameName f6) t6),
      ToUI (MsgScanComplete screens [] 7)]"
  unfolding handleScanScreens_def guarded_def withSession_def scanScreensBody_def snapshot_def
  apply (simp add: sel key Let_def)
  apply (subst batchLoop.simps)
  apply (subst batchLoop.simps)
  apply (subst batchLoop.simps)
  apply (simp add: bind_def seq_def emit_def ret_def lift_def startCall_def sendProgress_def
      sendToUI_def BATCH_SIZE_def BATCH_DELAY_MS_def v doc document_def modelFor_def throw_def
      screenCall_def numeral_eq_Suc split: option.splits)
  done

theorem seven_screens_two_batches_witness:
  "filter (\<lambda>ev. \<not> isFetch ev)
     (trace (handleScanScreens (answering sevenScreens ''## Purpose'') (uiArgs ''key'') noOptions
               (freshWorld ''key'')))
   = [Document ExtractDesignSystem,
      BatchResolved 5, ToUI (MsgProgress (ProcessingFrames 5 7)), Delay 2000,
      BatchResolved 2, ToUI (MsgProgress (ProcessingFrames 7 7)),
      ToUI (MsgProgress CreatingCards),
      Document (CreateDocCards 0 (codes ''S1'') (codes ''## Purpose'')),
      Document (CreateDocCards 1 (codes ''S2'') (codes ''## Purpose'')),
      Document (CreateDocCards 2 (codes ''S3'') (codes ''## Purpose'')),
      Document (CreateDocCards 3 (codes ''S4'') (codes ''## Purpose'')),
      Document (CreateDocCards 4 (codes ''S5'') (codes ''## Purpose'')),
      Document (CreateDocCards 5 (codes ''S6'') (codes ''## Purpose'')),
      Document (CreateDocCards 6 (codes ''S7'') (codes ''## Purpose'')),
      ToUI (MsgScanComplete screens [] 7)]
   \<and> length (filter isFetch
       (trace (handleScanScreens (answering sevenScreens ''## Purpose'') (uiArgs ''key'') noOptions
                 (freshWorld ''key'')))) = 7"
proof -
  have sel: "selection (answering sevenScreens ''## Purpose'')
      = [screenNamed ''S1'', screenNamed ''S2'', screenNamed ''S3'', screenNamed ''S4'',
         screenNamed ''S5'', screenNamed ''S6'', screenNamed ''S7'']"
    by (simp add: answering_def sevenScreens_def)
  have key: "keyOf (uiArgs ''key'') (sess (freshWorld ''key'')) \<noteq> []"
    by code_simp
  have doc: "\<forall>op. collab (answering sevenScreens ''## Purpose'') op = None"
    by (simp add: answering_def)
  have v: "vendor (answering sevenScreens ''## Purpose'') n = Inr (codes ''## Purpose'')" for n
    by (simp add: answering_def)
  have tr: "trace (freshWorld ''key'') = []"
    by (simp add: freshWorld_def)
  have nm: "frameName (screenNamed n) = codes n" for n
    by (simp add: screenNamed_def)
  show ?thesis
    using seven_screens_two_batches [OF sel key doc v v v v v v v, of noOptions]
    by (simp add: tr nm)
qed

text \<open>
  Claim C8. In the loop of the regeneration handler, take an item whose name and prompt can
  be built. When the answer to its request has no visual spec, the request is made once
  more; when the second answer has none either, no third request is made: an error
  notification says that the item is skipped, no frame is counted, and the loop goes on with
  the items that remain.
\<close>

theorem retry_once_then_skip:
  assumes name: "andThen (getProp item (codes ''name'')) strPiece = Inr name"
    and prompt: "promptParts item = Inr ()"
    and first: "vendor en (calls w) = Inr text" "parseVisualScreenSpec text = Inr None"
    and second: "vendor en (calls w + 1) = Inr retryText" "parseVisualScreenSpec retryText = Inr None"
  shows "generateLoop en model images count i (item # items) created w =
         generateLoop en model images count (i + 1) items created
           (w\<lparr>calls := calls w + 2,
              trace := trace w @
                [ToUI (MsgProgress (GeneratingScreen (i + 1) count name)),
                 Fetch (calls w)
                   (visualCallOf w model item i (if images then WithImages else TextWithSummary)),
                 Fetch (calls w + 1)
                   (visualCallOf w model item i (if images then WithImages else TextOnly)),
                 ToUI (MsgSkipping name)]\<rparr>)"
  using first second
  by (simp add: name prompt buildPrompt_def bind_def seq_def emit_def ret_def lift_def startCall_def
      sendProgress_def sendToUI_def visualCall_def callAI_def visualCallOf_def)

theorem retry_once_then_skip_witness:
  "generateLoop (answering [] ''no json'') (codes ''gpt-4o'') False 2 0 [offlineItem, offlineItem] 0
     (freshWorld ''key'')
   = (Inr 0,
      (freshWorld ''key'')
        \<lparr>calls := 4,
         trace :=
           [ToUI (MsgProgress (GeneratingScreen 1 2 (Str (Some (JString (codes ''Offline'')))))),
            Fetch 0 (visualCallOf (freshWorld ''key'') (codes ''gpt-4o'') offlineItem 0 TextWithSummary),
            Fetch 1 (visualCallOf (freshWorld ''key'') (codes ''gpt-4o'') offlineItem 0 TextOnly),
            ToUI (MsgSkipping (Str (Some (JString (codes ''Offline''))))),
            ToUI (MsgProgress (GeneratingScreen 2 2 (Str (Some (JString (codes ''Offline'')))))),
            Fetch 2 (visualCallOf (freshWorld ''key'') (codes ''gpt-4o'') offlineItem 1 TextWithSummary),
            Fetch 3 (visualCallOf (freshWorld ''key'') (codes ''gpt-4o'') offlineItem 1 TextOnly),
            ToUI (MsgSkipping (Str (Some (JString (codes ''Offline'')))))]\<rparr>)"
proof -
  let ?en = "answering [] ''no json''"
  let ?name = "Str (Some (JString (codes ''Offline'')))"
  have name: "andThen (getProp offlineItem (codes ''name'')) strPiece = Inr ?name"
    by code_simp
  have prompt: "promptParts offlineItem = Inr ()"
    by code_simp
  have v: "vendor ?en n = Inr (codes ''no json'')" for n
    by (simp add: answering_def)
  have p: "parseVisualScreenSpec (codes ''no json'') = Inr None"
    by code_simp
  note step = retry_once_then_skip [OF name prompt v p v p]
  show ?thesis
    by (simp del: generateLoop.simps(2) add: step freshWorld_def visualCallOf_def ret_def)
qed


section \<open>Properties of the documentation section parser\<close>

lemma headerKey_in_keys: "headerKey l = Some k \<Longrightarrow> k \<in> set SECTION_KEYS"
proof -
  assume "headerKey l = Some k"
  then obtain h where h: "find (\<lambda>h. matchSeq (snd h) l) SECTION_HEADERS = Some h" and k: "k = fst h"
    by (auto simp: headerKey_def)
  from h have "h \<in> set SECTION_HEADERS"
    by (auto simp: find_Some_iff)
  then have "fst h \<in> fst ` set SECTION_HEADERS" by (rule imageI)
  also have "fst ` set SECTION_HEADERS = set SECTION_KEYS"
    by (simp add: SECTION_HEADERS_def SECTION_KEYS_def)
  finally show ?thesis using k by simp
qed

lemma dom_initialSections: "dom initialSections = set SECTION_KEYS"
  by (auto simp: initialSections_def SECTION_KEYS_def)

lemma dom_flush: "dom secs = set SECTION_KEYS \<Longrightarrow> (\<forall>k. cur = Some k \<longrightarrow> k \<in> set SECTION_KEYS) \<Longrightarrow>
   dom (flush cur lines secs) = set SECTION_KEYS"
  by (auto simp: flush_def split: option.splits)

lemma dom_lineStep_fold:
  "dom secs = set SECTION_KEYS \<Longrightarrow> (\<forall>k. cur = Some k \<longrightarrow> k \<in> set SECTION_KEYS) \<Longrightarrow>
   foldl lineStep (secs, cur, lines) ls = (secs', cur', lines') \<Longrightarrow>
   dom secs' = set SECTION_KEYS \<and> (\<forall>k. cur' = Some k \<longrightarrow> k \<in> set SECTION_KEYS)"
proof (induction ls arbitrary: secs cur lines)
  case Nil
  then show ?case by simp
next
  case (Cons l ls)
  obtain s1 c1 l1 where step: "lineStep (secs, cur, lines) l = (s1, c1, l1)"
    by (cases "lineStep (secs, cur, lines) l") auto
  have d1: "dom s1 = set SECTION_KEYS" and k1: "\<forall>k. c1 = Some k \<longrightarrow> k \<in> set SECTION_KEYS"
    using step Cons.prems(1,2) dom_flush [of secs cur lines]
    by (auto simp: lineStep_def split: option.splits if_splits dest: headerKey_in_keys)
  show ?case
    using Cons.IH [OF d1 k1, of l1] Cons.prems(3) step by simp
qed

lemma dom_parseLines: "dom (parseLines ls) = set SECTION_KEYS"
proof -
  obtain secs cur lines where f: "foldl lineStep (initialSections, None, []) ls = (secs, cur, lines)"
    by (cases "foldl lineStep (initialSections, None, []) ls") auto
  have "dom secs = set SECTION_KEYS \<and> (\<forall>k. cur = Some k \<longrightarrow> k \<in> set SECTION_KEYS)"
    using dom_lineStep_fold [OF dom_initialSections _ f] by simp
  then have "dom (flush cur lines secs) = set SECTION_KEYS"
    using dom_flush by blast
  then show ?thesis
    by (auto simp: parseLines_def f dom_def)
qed

lemma dom_parseDocSections: "dom (parseDocSections doc) = set SECTION_KEYS"
  by (simp add: parseDocSections_def dom_parseLines)

lemma flush_other: "cur \<noteq> Some k \<Longrightarrow> flush cur lines secs k = secs k"
  by (auto simp: flush_def split: option.splits)

lemma untouched_key_fold:
  "\<forall>l \<in> set ls. headerKey (trim l) \<noteq> Some k \<Longrightarrow> cur \<noteq> Some k \<Longrightarrow>
   foldl lineStep (secs, cur, lines) ls = (secs', cur', lines') \<Longrightarrow>
   secs' k = secs k \<and> cur' \<noteq> Some k"
proof (induction ls arbitrary: secs cur lines)
  case Nil
  then show ?case by simp
next
  case (Cons l ls)
  obtain s1 c1 l1 where step: "lineStep (secs, cur, lines) l = (s1, c1, l1)"
    by (cases "lineStep (secs, cur, lines) l") auto
  have a: "s1 k = secs k" and b: "c1 \<noteq> Some k"
    using step Cons.prems(1,2) flush_other [of cur k lines secs]
    by (auto simp: lineStep_def split: option.splits if_splits)
  have rest: "\<forall>l \<in> set ls. headerKey (trim l) \<noteq> Some k" using Cons.prems(1) by simp
  show ?case
    using Cons.IH [OF rest b] Cons.prems(3) step a by simp
qed

lemma body_lines_fold:
  "\<forall>l \<in> set body. headerKey (trim l) = None \<Longrightarrow>
   foldl lineStep (secs, Some k, lines) body = (secs, Some k, lines @ body)"
  by (induction body arbitrary: lines) (auto simp: lineStep_def)

lemma parseLines_missing_header_raw:
  assumes "\<forall>l \<in> set ls. headerKey (trim l) \<noteq> Some k"
  shows "parseLines ls k = map_option finalStrip (initialSections k)"
proof -
  obtain secs cur lines where f: "foldl lineStep (initialSections, None, []) ls = (secs, cur, lines)"
    by (cases "foldl lineStep (initialSections, None, []) ls") auto
  have "secs k = initialSections k \<and> cur \<noteq> Some k"
    using untouched_key_fold [OF assms _ f] by simp
  then show ?thesis
    by (simp add: parseLines_def f flush_other)
qed

lemma finalStrip_defaults: "k \<in> set SECTION_KEYS \<Longrightarrow> map_option finalStrip (initialSections k) = initialSections k"
proof -
  have e: "finalStrip [] = []" by code_simp
  have l: "finalStrip linkPlaceholder = linkPlaceholder" by code_simp
  have a: "finalStrip attachmentsPlaceholder = attachmentsPlaceholder" by code_simp
  assume "k \<in> set SECTION_KEYS"
  then show ?thesis
    by (auto simp: SECTION_KEYS_def initialSections_def e l a)
qed

lemma parseLines_missing_header:
  assumes "k \<in> set SECTION_KEYS"
    and "\<forall>l \<in> set ls. headerKey (trim l) \<noteq> Some k"
  shows "parseLines ls k = initialSections k"
  using parseLines_missing_header_raw [OF assms(2)] finalStrip_defaults [OF assms(1)]
  by simp

lemma parseDocSections_missing_header:
  assumes "k \<in> set SECTION_KEYS"
    and "\<forall>l \<in> set (docLines doc). headerKey (trim l) \<noteq> Some k"
  shows "parseDocSections doc k = initialSections k"
  using parseLines_missing_header [OF assms] by (simp add: parseDocSections_def)

text \<open>A header with an empty body changes nothing: the lines give what they give without
  the header and its body.\<close>

lemma parseLines_empty_body:
  assumes hk: "headerKey (trim h) = Some k"
    and nb: "\<forall>l \<in> set body. headerKey (trim l) = None"
    and nx: "rest = [] \<or> headerKey (trim (hd rest)) \<noteq> None"
    and em: "flushContent body = []"
  shows "parseLines (pre @ [h] @ body @ rest) = parseLines (pre @ rest)"
proof -
  obtain s0 c0 l0 where f0: "foldl lineStep (initialSections, None, []) pre = (s0, c0, l0)"
    by (cases "foldl lineStep (initialSections, None, []) pre") auto
  define s1 where "s1 = flush c0 l0 s0"
  have st1: "lineStep (s0, c0, l0) h = (s1, Some k, [])"
    by (simp add: lineStep_def hk s1_def)
  have fb: "foldl lineStep (s1, Some k, []) body = (s1, Some k, body)"
    using body_lines_fold [OF nb, of s1 k "[]"] by simp
  have upto: "foldl lineStep (initialSections, None, []) (pre @ [h] @ body) = (s1, Some k, body)"
    by (simp add: f0 st1 fb)
  have fl: "flush (Some k) body s1 = s1"
    by (simp add: flush_def em)
  show ?thesis
  proof (cases rest)
    case Nil
    have "parseLines (pre @ [h] @ body) = (\<lambda>key. map_option finalStrip (s1 key))"
      unfolding parseLines_def upto by (simp add: fl)
    moreover have "parseLines pre = (\<lambda>key. map_option finalStrip (s1 key))"
      unfolding parseLines_def f0 by (simp add: s1_def)
    ultimately show ?thesis using Nil by simp
  next
    case (Cons h' rest')
    then obtain k' where k': "headerKey (trim h') = Some k'"
      using nx by auto
    have a: "lineStep (s1, Some k, body) h' = (s1, Some k', [])"
      by (simp add: lineStep_def k' fl)
    have b: "lineStep (s0, c0, l0) h' = (s1, Some k', [])"
      by (simp add: lineStep_def k' s1_def)
    have "foldl lineStep (initialSections, None, []) (pre @ [h] @ body @ rest)
            = foldl lineStep (s1, Some k', []) rest'"
      using upto a Cons by simp
    moreover have "foldl lineStep (initialSections, None, []) (pre @ rest)
            = foldl lineStep (s1, Some k', []) rest'"
      using f0 b Cons by simp
    ultimately show ?thesis
      by (simp add: parseLines_def)
  qed
qed

lemma parseLines_empty_body_default:
  assumes hk: "headerKey (trim h) = Some k"
    and nb: "\<forall>l \<in> set body. headerKey (trim l) = None"
    and nx: "rest = [] \<or> headerKey (trim (hd rest)) \<noteq> None"
    and em: "flushContent body = []"
    and np: "\<forall>l \<in> set pre. headerKey (trim l) \<noteq> Some k"
    and nr: "\<forall>l \<in> set rest. headerKey (trim l) \<noteq> Some k"
  shows "parseLines (pre @ [h] @ body @ rest) k = initialSections k"
proof -
  have kin: "k \<in> set SECTION_KEYS"
    using hk by (rule headerKey_in_keys)
  have "\<forall>l \<in> set (pre @ rest). headerKey (trim l) \<noteq> Some k"
    using np nr by auto
  then have "parseLines (pre @ rest) k = initialSections k"
    using parseLines_missing_header [OF kin] by blast
  then show ?thesis
    using parseLines_empty_body [OF hk nb nx em, of pre] by simp
qed

text \<open>
  Claim C10, as the code has it. Whatever the document, the record returned has exactly the
  eight section keys. A line recognized as a header whose body (the lines from it to the
  next recognized header, or to the end) gives the empty string after the stripping and
  trimming of \<open>flush\<close> writes nothing: the result is the one that the lines give without
  that header and its body. So the section has its initial value, the default and not the
  empty string, when no other line is a header of the same section; when another line is,
  the section has what that other header and its body give.
\<close>

theorem parseDocSections_keys_and_empty_body:
  "dom (parseDocSections doc) = set SECTION_KEYS \<and> length SECTION_KEYS = 8 \<and> distinct SECTION_KEYS
   \<and> (docLines doc = pre @ [h] @ body @ rest \<and> headerKey (trim h) = Some k
       \<and> (\<forall>l \<in> set body. headerKey (trim l) = None)
       \<and> (rest = [] \<or> headerKey (trim (hd rest)) \<noteq> None)
       \<and> flushContent body = []
       \<longrightarrow> parseDocSections doc = parseLines (pre @ rest)
           \<and> ((\<forall>l \<in> set pre. headerKey (trim l) \<noteq> Some k)
                \<and> (\<forall>l \<in> set rest. headerKey (trim l) \<noteq> Some k)
                \<longrightarrow> parseDocSections doc k = initialSections k))"
proof -
  have "length SECTION_KEYS = 8 \<and> distinct SECTION_KEYS"
    by (simp add: SECTION_KEYS_def)
  moreover have "docLines doc = pre @ [h] @ body @ rest \<and> headerKey (trim h) = Some k
       \<and> (\<forall>l \<in> set body. headerKey (trim l) = None)
       \<and> (rest = [] \<or> headerKey (trim (hd rest)) \<noteq> None)
       \<and> flushContent body = []
       \<longrightarrow> parseDocSections doc = parseLines (pre @ rest)
           \<and> ((\<forall>l \<in> set pre. headerKey (trim l) \<noteq> Some k)
                \<and> (\<forall>l \<in> set rest. headerKey (trim l) \<noteq> Some k)
                \<longrightarrow> parseDocSections doc k = initialSections k)"
    using parseLines_empty_body [of h k body rest pre]
      parseLines_empty_body_default [of h k body rest pre]
    by (simp add: parseDocSections_def)
  ultimately show ?thesis
    using dom_parseDocSections [of doc] by blast
qed

theorem parseDocSections_keys_and_empty_body_witness:
  "parseDocSections
     (codes ''## Purpose'' @ [10] @ codes ''Shows X'' @ [10] @ codes ''## Attachments'' @ [10]
      @ codes ''  '' @ [10] @ codes ''## Use Cases'' @ [10] @ codes ''Primary'')
     = parseLines [codes ''## Purpose'', codes ''Shows X'', codes ''## Use Cases'', codes ''Primary'']
   \<and> parseDocSections
     (codes ''## Purpose'' @ [10] @ codes ''Shows X'' @ [10] @ codes ''## Attachments'' @ [10]
      @ codes ''  '' @ [10] @ codes ''## Use Cases'' @ [10] @ codes ''Primary'')
     ''Attachments'' = Some attachmentsPlaceholder
   \<and> dom (parseDocSections (codes ''## Purpose'')) = set SECTION_KEYS"
proof -
  let ?doc = "codes ''## Purpose'' @ [10] @ codes ''Shows X'' @ [10] @ codes ''## Attachments'' @ [10]
      @ codes ''  '' @ [10] @ codes ''## Use Cases'' @ [10] @ codes ''Primary''"
  have dec: "docLines ?doc = [codes ''## Purpose'', codes ''Shows X''] @ [codes ''## Attachments'']
               @ [codes ''  ''] @ [codes ''## Use Cases'', codes ''Primary'']"
    by code_simp
  have hk: "headerKey (trim (codes ''## Attachments'')) = Some ''Attachments''"
    by code_simp
  have nb: "\<forall>l \<in> set [codes ''  '']. headerKey (trim l) = None"
    by code_simp
  have np: "\<forall>l \<in> set [codes ''## Purpose'', codes ''Shows X'']. headerKey (trim l) \<noteq> Some ''Attachments''"
    by code_simp
  have nr: "\<forall>l \<in> set [codes ''## Use Cases'', codes ''Primary'']. headerKey (trim l) \<noteq> Some ''Attachments''"
    by code_simp
  have nx: "[codes ''## Use Cases'', codes ''Primary''] = []
            \<or> headerKey (trim (hd [codes ''## Use Cases'', codes ''Primary''])) \<noteq> None"
    by code_simp
  have em: "flushContent [codes ''  ''] = []"
    by code_simp
  have ini: "initialSections ''Attachments'' = Some attachmentsPlaceholder"
    by (simp add: initialSections_def)
  have both: "parseDocSections ?doc
             = parseLines ([codes ''## Purpose'', codes ''Shows X''] @ [codes ''## Use Cases'', codes ''Primary''])
           \<and> ((\<forall>l \<in> set [codes ''## Purpose'', codes ''Shows X'']. headerKey (trim l) \<noteq> Some ''Attachments'')
                \<and> (\<forall>l \<in> set [codes ''## Use Cases'', codes ''Primary'']. headerKey (trim l) \<noteq> Some ''Attachments'')
                \<longrightarrow> parseDocSections ?doc ''Attachments'' = initialSections ''Attachments'')"
    using parseDocSections_keys_and_empty_body
            [of ?doc "[codes ''## Purpose'', codes ''Shows X'']" "codes ''## Attachments''"
                "[codes ''  '']" "[codes ''## Use Cases'', codes ''Primary'']" "''Attachments''"]
          dec hk nb nx em
    by blast
  have a1: "parseDocSections ?doc
              = parseLines [codes ''## Purpose'', codes ''Shows X'', codes ''## Use Cases'', codes ''Primary'']"
    using both by simp
  have a2: "parseDocSections ?doc ''Attachments'' = Some attachmentsPlaceholder"
    using both np nr ini by metis
  have b: "dom (parseDocSections (codes ''## Purpose'')) = set SECTION_KEYS"
    using parseDocSections_keys_and_empty_body [of "codes ''## Purpose''"] by blast
  show ?thesis using a1 a2 b by blast
qed

text \<open>
  Claim C10 as written fails in its second part: the second header of the document below
  is recognized and its body is white space only, but the section does not have its
  default, the empty string; it has the body of the first header.
\<close>

theorem parseDocSections_repeated_header_counterexample:
  "docLines (codes ''## Purpose'' @ [10] @ codes ''foo'' @ [10] @ codes ''## Purpose'' @ [10] @ codes ''  '')
     = [codes ''## Purpose'', codes ''foo'', codes ''## Purpose'', codes ''  '']
   \<and> headerKey (trim (codes ''## Purpose'')) = Some ''Purpose''
   \<and> headerKey (trim (codes ''  '')) = None
   \<and> flushContent [codes ''  ''] = []
   \<and> parseDocSections
         (codes ''## Purpose'' @ [10] @ codes ''foo'' @ [10] @ codes ''## Purpose'' @ [10] @ codes ''  '')
         ''Purpose'' = Some (codes ''foo'')
   \<and> initialSections ''Purpose'' = Some []"
  by code_simp

text \<open>
  Claim C4 fails on the code in its last part. The parser does return every key, and a
  section without header keeps its default (\<open>dom_parseDocSections\<close>,
  \<open>parseDocSections_missing_header\<close>), but heading markers are left in the final content:
  a line with three runs of \<^verbatim>\<open>#\<close> keeps the third, and an indented heading, which the
  parser itself would recognize as a header after trimming the line, keeps its marker.
\<close>

theorem parseDocSections_residual_markers:
  "parseDocSections (codes ''## Purpose'' @ [10] @ codes ''# # # Title'') ''Purpose''
     = Some (codes ''# Title'')
   \<and> parseDocSections (codes ''## Purpose'' @ [10] @ codes ''Intro'' @ [10] @ codes ''  ## Details'')
       ''Purpose''
     = Some (codes ''Intro'' @ [10] @ codes ''  ## Details'')"
  by code_simp

end
